theory Spec2Isabelle
  imports Main "HOL-Library.Word" "HOL-Library.Signed_Division"
begin

section \<open>LED copper string controller: a shallow embedding of firmware/src/main.c\<close>

text \<open>
  The firmware keeps its state in file-scope globals and runs every handler on one
  cooperative work queue. The embedding threads one record through every function.
  Stored values have the width the C declaration gives them; expressions that C
  evaluates in \<^verbatim>\<open>int\<close> (after integer promotion) are computed on \<^typ>\<open>int\<close> and
  converted back with \<^term>\<open>word_of_int\<close> where the C code stores them.
\<close>

subsection \<open>Data\<close>

type_synonym u8 = "8 word"
type_synonym u16 = "16 word"
type_synonym u32 = "32 word"

text \<open>
  The identifiers of the Identify cluster's effects (\<^verbatim>\<open>ZB_ZCL_IDENTIFY_EFFECT_ID_*\<close>)
  are an enumeration of the Zigbee SDK; \<^verbatim>\<open>effect_type\<close> holds one of them in a byte.
  Every other byte value takes the \<^verbatim>\<open>default\<close> branch of the handler's switch.
\<close>

datatype effect_id =
    EFFECT_ID_BLINK
  | EFFECT_ID_BREATHE
  | EFFECT_ID_OKAY
  | EFFECT_ID_CHANNEL_CHANGE
  | EFFECT_ID_FINISH_EFFECT
  | EFFECT_ID_STOP
  | EFFECT_ID_OTHER u8

text \<open>
  What the firmware does to the outside, in order: every pulse width handed to
  \<^verbatim>\<open>pwm_set_pulse_dt\<close>, every message logged at level INF or above (the module is
  registered with \<^verbatim>\<open>LOG_LEVEL_INF\<close>, so \<^verbatim>\<open>LOG_DBG\<close> lines are compiled out; a message
  is kept as its format string), and the network reset of a long press.
\<close>

datatype event =
    PWM_SET_PULSE u32
  | LOG_ERR string
  | LOG_INF string
  | BDB_RESET

text \<open>
  The globals of main.c. Fields of the nested attribute structs keep their field names
  (\<^verbatim>\<open>dev_ctx.on_off_attr.on_off\<close> is \<open>on_off\<close>, \<^verbatim>\<open>dev_ctx.level_control_attr.current_level\<close>
  is \<open>current_level\<close>, \<^verbatim>\<open>app_state.pressed\<close> is \<open>pressed\<close>). A delayable work item is
  \<open>None\<close> while idle and \<open>Some t\<close> while scheduled to run at uptime \<open>t\<close> (milliseconds).
  \<open>pwm_period\<close> is \<^verbatim>\<open>pwm_brightness.period\<close>, a device tree constant. \<open>uptime\<close> is the
  kernel clock read by \<^verbatim>\<open>k_uptime_get\<close>. \<open>settings_on_off\<close> and \<open>settings_level\<close> are the
  two keys of the settings store.
\<close>

record fw =
  pwm_period :: u32
  on_off :: bool
  start_up_on_off :: u8
  current_level :: u8
  on_off_transition_time :: u16
  start_up_current_level :: u8
  press_time :: int
  pressed :: bool
  last_brightness :: u8
  effect_type :: effect_id
  effect_step :: u8
  polarity_phase :: bool
  light_is_on :: bool
  polarity_timer :: bool
  tb6612_standby :: bool
  tb6612_ain1 :: bool
  tb6612_ain2 :: bool
  status_led :: bool
  current_brightness :: u8
  transition_start :: u8
  transition_target :: u8
  transition_elapsed :: u16
  transition_duration :: u16
  transition_work :: "int option"
  effect_work :: "int option"
  long_press_work :: "int option"
  uptime :: int
  settings_on_off :: bool
  settings_level :: u8
  trace :: "event list"

subsection \<open>Kernel primitives\<close>

text \<open>
  \<^verbatim>\<open>k_work_schedule(work, delay)\<close>: a work item that is already scheduled keeps its
  deadline; an idle one is scheduled \<open>delay\<close> milliseconds from now.
  \<^verbatim>\<open>k_work_cancel_delayable\<close> makes the item idle (written \<open>None\<close> in place).
\<close>

definition k_work_schedule :: "int option \<Rightarrow> int \<Rightarrow> int \<Rightarrow> int option" where
  "k_work_schedule work now delay =
     (case work of None \<Rightarrow> Some (now + delay) | Some t \<Rightarrow> Some t)"


definition TRANSITION_STEP_MS :: int where
  "TRANSITION_STEP_MS = 20"

subsection \<open>TB6612 H-bridge\<close>

definition polarity_timer_handler :: "fw \<Rightarrow> fw" where
  "polarity_timer_handler s =
     (if \<not> light_is_on s then s
      else
        (let s1 = s\<lparr>polarity_phase := \<not> polarity_phase s\<rparr> in
         if polarity_phase s1
         then s1\<lparr>tb6612_ain1 := False, tb6612_ain2 := True\<rparr>
         else s1\<lparr>tb6612_ain1 := True, tb6612_ain2 := False\<rparr>))"

definition tb6612_on :: "fw \<Rightarrow> fw" where
  "tb6612_on s =
     s\<lparr>tb6612_standby := True,
       polarity_phase := False,
       tb6612_ain1 := True,
       tb6612_ain2 := False,
       light_is_on := True,
       polarity_timer := True\<rparr>"

definition tb6612_off :: "fw \<Rightarrow> fw" where
  "tb6612_off s =
     s\<lparr>light_is_on := False,
       polarity_timer := False,
       tb6612_ain1 := False,
       tb6612_ain2 := False,
       tb6612_standby := False\<rparr>"

subsection \<open>Persistent settings\<close>

definition save_light_state :: "fw \<Rightarrow> fw" where
  "save_light_state s =
     s\<lparr>settings_on_off := on_off s, settings_level := current_level s\<rparr>"

subsection \<open>PWM light control\<close>

definition cie1931_lut :: "u8 list" where
  "cie1931_lut =
   [  0,   0,   0,   0,   0,   1,   1,   1,   1,   1,   1,   1,   1,   1,   2,   2,
      2,   2,   2,   2,   2,   2,   2,   3,   3,   3,   3,   3,   3,   3,   3,   4,
      4,   4,   4,   4,   4,   5,   5,   5,   5,   5,   6,   6,   6,   6,   6,   7,
      7,   7,   7,   8,   8,   8,   8,   9,   9,   9,  10,  10,  10,  10,  11,  11,
     11,  12,  12,  12,  13,  13,  13,  14,  14,  15,  15,  15,  16,  16,  17,  17,
     17,  18,  18,  19,  19,  20,  20,  21,  21,  22,  22,  23,  23,  24,  24,  25,
     25,  26,  26,  27,  28,  28,  29,  29,  30,  31,  31,  32,  32,  33,  34,  34,
     35,  36,  37,  37,  38,  39,  39,  40,  41,  42,  43,  43,  44,  45,  46,  47,
     47,  48,  49,  50,  51,  52,  53,  54,  54,  55,  56,  57,  58,  59,  60,  61,
     62,  63,  64,  65,  66,  67,  68,  70,  71,  72,  73,  74,  75,  76,  77,  79,
     80,  81,  82,  83,  85,  86,  87,  88,  90,  91,  92,  94,  95,  96,  98,  99,
    100, 102, 103, 105, 106, 108, 109, 110, 112, 113, 115, 116, 118, 120, 121, 123,
    124, 126, 128, 129, 131, 132, 134, 136, 138, 139, 141, 143, 145, 146, 148, 150,
    152, 154, 155, 157, 159, 161, 163, 165, 167, 169, 171, 173, 175, 177, 179, 181,
    183, 185, 187, 189, 191, 193, 196, 198, 200, 202, 204, 207, 209, 211, 214, 216,
    218, 220, 223, 225, 228, 230, 232, 235, 237, 240, 242, 245, 247, 250, 252, 255]"

text \<open>
  \<open>pwm_ret\<close> is what \<^verbatim>\<open>pwm_set_pulse_dt\<close> returns for this write: zero on success,
  a negative errno otherwise. The pulse is computed in 64 bits and stored in 32.
  The index \<open>unat brightness\<close> is below 256, the length of the table.
\<close>

definition light_set_brightness :: "int \<Rightarrow> u8 \<Rightarrow> fw \<Rightarrow> fw" where
  "light_set_brightness pwm_ret brightness s =
     (let corrected = cie1931_lut ! unat brightness;
          pulse = (word_of_nat (unat corrected * unat (pwm_period s) div 255) :: u32);
          s1 = s\<lparr>trace := trace s @ [PWM_SET_PULSE pulse]\<rparr>
      in if pwm_ret \<noteq> 0
         then s1\<lparr>trace := trace s1 @ [LOG_ERR ''PWM set failed'']\<rparr>
         else
           (let s2 = s1\<lparr>current_brightness := brightness\<rparr> in
            if 0 < brightness \<and> \<not> light_is_on s2 then tb6612_on s2
            else if brightness = 0 \<and> light_is_on s2 then tb6612_off s2
            else s2))"

subsection \<open>Smooth brightness transitions\<close>

text \<open>
  \<^verbatim>\<open>transition_elapsed\<close> is a \<^verbatim>\<open>uint16_t\<close>: the addition of the step wraps at \<open>2^16\<close>.
  The interpolation is done in \<^verbatim>\<open>int32_t\<close>; its operands are at most 255 and 65535 in
  magnitude, so the product fits. C division truncates towards zero (\<open>sdiv\<close>). The
  result is stored in a \<^verbatim>\<open>uint8_t\<close>.
\<close>

definition transition_work_handler :: "int \<Rightarrow> fw \<Rightarrow> fw" where
  "transition_work_handler pwm_ret s =
     (let s1 = s\<lparr>transition_elapsed :=
                   transition_elapsed s + word_of_int TRANSITION_STEP_MS\<rparr> in
      if transition_duration s1 \<le> transition_elapsed s1
      then light_set_brightness pwm_ret (transition_target s1) s1
      else
        (let diff = uint (transition_target s1) - uint (transition_start s1);
             current = (word_of_int (uint (transition_start s1) +
                          (diff * uint (transition_elapsed s1)) sdiv
                             uint (transition_duration s1)) :: u8);
             s2 = light_set_brightness pwm_ret current s1
         in s2\<lparr>transition_work :=
                 k_work_schedule (transition_work s2) (uptime s2) TRANSITION_STEP_MS\<rparr>))"

definition light_fade_to :: "int \<Rightarrow> u8 \<Rightarrow> u16 \<Rightarrow> fw \<Rightarrow> fw" where
  "light_fade_to pwm_ret target duration_ms s =
     (let s1 = s\<lparr>transition_work := None\<rparr> in
      if duration_ms = 0 \<or> current_brightness s1 = target
      then light_set_brightness pwm_ret target s1
      else
        (let s2 = s1\<lparr>transition_start := current_brightness s1,
                     transition_target := target,
                     transition_elapsed := 0,
                     transition_duration := duration_ms\<rparr>;
             s3 = s2\<lparr>trace := trace s2 @ [LOG_INF ''Fade: %u -> %u over %ums'']\<rparr>
         in s3\<lparr>transition_work := k_work_schedule (transition_work s3) (uptime s3) 0\<rparr>))"

text \<open>
  \<^verbatim>\<open>ZB_ZCL_SET_ATTRIBUTE\<close> stores the value in the attribute's variable, which the
  cluster declarations bind to the fields of \<^verbatim>\<open>dev_ctx\<close>.
  \<^verbatim>\<open>on_off_transition_time * 100\<close> is stored in a \<^verbatim>\<open>uint16_t\<close>: it wraps at \<open>2^16\<close>.
\<close>

definition light_toggle :: "int \<Rightarrow> fw \<Rightarrow> fw" where
  "light_toggle pwm_ret s =
     (let new_state = \<not> on_off s;
          target_level =
            (if new_state
             then (let t = (if 0 < current_level s then current_level s
                            else last_brightness s)
                   in if t = 0 then 255 else t)
             else 0);
          s1 = s\<lparr>on_off := new_state\<rparr>;
          s2 = (if new_state \<and> target_level \<noteq> current_level s1
                then s1\<lparr>current_level := target_level\<rparr> else s1);
          ms = on_off_transition_time s2 * 100;
          transition_ms = (if ms = 0 then 1000 else ms);
          s3 = light_fade_to pwm_ret target_level transition_ms s2;
          s4 = (if 0 < target_level then s3\<lparr>last_brightness := target_level\<rparr> else s3);
          s5 = save_light_state s4
      in s5\<lparr>trace := trace s5 @ [LOG_INF ''Toggle: %s (level %u, fade %ums)'']\<rparr>)"

subsection \<open>Identify effects\<close>

text \<open>
  Every branch of the handler ends its script with the same lines under the comment
  \<^verbatim>\<open>Restore previous state\<close>; they are written once here.
\<close>

definition restore_previous_state :: "int \<Rightarrow> fw \<Rightarrow> fw" where
  "restore_previous_state pwm_ret s =
     (if on_off s then light_set_brightness pwm_ret (current_level s) s
      else light_set_brightness pwm_ret 0 s)"

definition effect_work_handler :: "int \<Rightarrow> fw \<Rightarrow> fw" where
  "effect_work_handler pwm_ret s =
     (case effect_type s of
        EFFECT_ID_BLINK \<Rightarrow>
          (if effect_step s = 0
           then (let s1 = light_set_brightness pwm_ret 255 s;
                     s2 = s1\<lparr>effect_step := 1\<rparr>
                 in s2\<lparr>effect_work := k_work_schedule (effect_work s2) (uptime s2) 500\<rparr>)
           else (restore_previous_state pwm_ret s)\<lparr>effect_type := EFFECT_ID_STOP\<rparr>)
      | EFFECT_ID_BREATHE \<Rightarrow>
          (if effect_step s < 30
           then (let brightness = (if effect_step s mod 2 = 0 then 255 else 0);
                     s1 = light_set_brightness pwm_ret brightness s;
                     s2 = s1\<lparr>effect_step := effect_step s1 + 1\<rparr>
                 in s2\<lparr>effect_work := k_work_schedule (effect_work s2) (uptime s2) 500\<rparr>)
           else (restore_previous_state pwm_ret s)\<lparr>effect_type := EFFECT_ID_STOP\<rparr>)
      | EFFECT_ID_OKAY \<Rightarrow>
          (if effect_step s < 4
           then (let brightness = (if effect_step s mod 2 = 0 then 255 else 0);
                     s1 = light_set_brightness pwm_ret brightness s;
                     s2 = s1\<lparr>effect_step := effect_step s1 + 1\<rparr>
                 in s2\<lparr>effect_work := k_work_schedule (effect_work s2) (uptime s2) 200\<rparr>)
           else (restore_previous_state pwm_ret s)\<lparr>effect_type := EFFECT_ID_STOP\<rparr>)
      | EFFECT_ID_CHANNEL_CHANGE \<Rightarrow>
          (if effect_step s = 0
           then (let s1 = light_set_brightness pwm_ret 255 s;
                     s2 = s1\<lparr>effect_step := 1\<rparr>
                 in s2\<lparr>effect_work := k_work_schedule (effect_work s2) (uptime s2) 500\<rparr>)
           else if effect_step s = 1
           then (let s1 = light_set_brightness pwm_ret 25 s;
                     s2 = s1\<lparr>effect_step := 2\<rparr>
                 in s2\<lparr>effect_work := k_work_schedule (effect_work s2) (uptime s2) 7500\<rparr>)
           else (restore_previous_state pwm_ret s)\<lparr>effect_type := EFFECT_ID_STOP\<rparr>)
      | _ \<Rightarrow> (restore_previous_state pwm_ret s)\<lparr>effect_type := EFFECT_ID_STOP\<rparr>)"

definition start_identify_effect :: "int \<Rightarrow> effect_id \<Rightarrow> fw \<Rightarrow> fw" where
  "start_identify_effect pwm_ret effect s =
     (let s0 = s\<lparr>trace := trace s @ [LOG_INF ''Identify effect: %u'']\<rparr>;
          s1 = s0\<lparr>effect_work := None\<rparr>;
          s2 = s1\<lparr>effect_type := effect, effect_step := 0\<rparr>
      in if effect = EFFECT_ID_STOP \<or> effect = EFFECT_ID_FINISH_EFFECT
         then restore_previous_state pwm_ret s2
         else s2\<lparr>effect_work := k_work_schedule (effect_work s2) (uptime s2) 0\<rparr>)"

subsection \<open>Battery measurement\<close>

record battery_level_point =
  mv :: u16
  percent :: u8

definition lipo_discharge_curve :: "battery_level_point list" where
  "lipo_discharge_curve =
   [\<lparr>mv = 4200, percent = 100\<rparr>,
    \<lparr>mv = 4150, percent = 95\<rparr>,
    \<lparr>mv = 4110, percent = 90\<rparr>,
    \<lparr>mv = 4080, percent = 85\<rparr>,
    \<lparr>mv = 4020, percent = 80\<rparr>,
    \<lparr>mv = 3980, percent = 75\<rparr>,
    \<lparr>mv = 3950, percent = 70\<rparr>,
    \<lparr>mv = 3910, percent = 65\<rparr>,
    \<lparr>mv = 3870, percent = 60\<rparr>,
    \<lparr>mv = 3840, percent = 55\<rparr>,
    \<lparr>mv = 3800, percent = 50\<rparr>,
    \<lparr>mv = 3760, percent = 45\<rparr>,
    \<lparr>mv = 3730, percent = 40\<rparr>,
    \<lparr>mv = 3690, percent = 35\<rparr>,
    \<lparr>mv = 3660, percent = 30\<rparr>,
    \<lparr>mv = 3620, percent = 25\<rparr>,
    \<lparr>mv = 3580, percent = 20\<rparr>,
    \<lparr>mv = 3500, percent = 15\<rparr>,
    \<lparr>mv = 3450, percent = 10\<rparr>,
    \<lparr>mv = 3300, percent = 5\<rparr>,
    \<lparr>mv = 3000, percent = 0\<rparr>]"

definition BATTERY_CURVE_SIZE :: nat where
  "BATTERY_CURVE_SIZE = length lipo_discharge_curve"

text \<open>
  The interpolation between entries \<open>i\<close> and \<open>i + 1\<close> of the curve. The differences
  \<open>v_range\<close> and \<open>p_range\<close> are stored in a \<^verbatim>\<open>uint16_t\<close> and a \<^verbatim>\<open>uint8_t\<close>; the
  returned expression is evaluated in \<^verbatim>\<open>int\<close> and converted to the \<^verbatim>\<open>uint8_t\<close> result.
\<close>

definition battery_interpolate :: "u16 \<Rightarrow> nat \<Rightarrow> u8" where
  "battery_interpolate voltage_mv i =
     (let v_high = mv (lipo_discharge_curve ! i);
          v_low = mv (lipo_discharge_curve ! (i + 1));
          p_high = percent (lipo_discharge_curve ! i);
          p_low = percent (lipo_discharge_curve ! (i + 1));
          v_range = v_high - v_low;
          p_range = p_high - p_low
      in word_of_int (uint p_low +
           ((uint voltage_mv - uint v_low) * uint p_range) sdiv uint v_range))"

text \<open>The \<^verbatim>\<open>for\<close> loop of \<^verbatim>\<open>battery_mv_to_percent\<close>, from index \<open>i\<close> on.\<close>

function battery_find_points :: "u16 \<Rightarrow> nat \<Rightarrow> u8" where
  "battery_find_points voltage_mv i =
     (if i < BATTERY_CURVE_SIZE - 1
      then (if mv (lipo_discharge_curve ! (i + 1)) \<le> voltage_mv
            then battery_interpolate voltage_mv i
            else battery_find_points voltage_mv (i + 1))
      else 0)"
  by pat_completeness auto
termination
  by (relation "measure (\<lambda>(voltage_mv, i). BATTERY_CURVE_SIZE - i)") auto

declare battery_find_points.simps [simp del]

definition battery_mv_to_percent :: "u16 \<Rightarrow> u8" where
  "battery_mv_to_percent voltage_mv =
     (if mv (lipo_discharge_curve ! 0) \<le> voltage_mv then 100
      else if voltage_mv \<le> mv (lipo_discharge_curve ! (BATTERY_CURVE_SIZE - 1)) then 0
      else battery_find_points voltage_mv 0)"

subsection \<open>Button handling\<close>




subsection \<open>Startup behaviour\<close>









subsection \<open>The work queue\<close>

text \<open>
  The kernel runs a scheduled work item when its deadline is reached: the clock stands
  at the deadline (or later, if the queue was busy), the item is idle again before
  its handler starts, and the handler may schedule it anew.
\<close>

definition run_transition_work :: "int \<Rightarrow> fw \<Rightarrow> fw" where
  "run_transition_work pwm_ret s =
     (case transition_work s of
        None \<Rightarrow> s
      | Some t \<Rightarrow>
          transition_work_handler pwm_ret
            (s\<lparr>uptime := max (uptime s) t, transition_work := None\<rparr>))"

definition run_effect_work :: "int \<Rightarrow> fw \<Rightarrow> fw" where
  "run_effect_work pwm_ret s =
     (case effect_work s of
        None \<Rightarrow> s
      | Some t \<Rightarrow>
          effect_work_handler pwm_ret
            (s\<lparr>uptime := max (uptime s) t, effect_work := None\<rparr>))"


text \<open>\<open>n\<close> runs of the fade's work item, every PWM write succeeding.\<close>

primrec transition_ticks :: "nat \<Rightarrow> fw \<Rightarrow> fw" where
  "transition_ticks 0 s = s"
| "transition_ticks (Suc n) s = run_transition_work 0 (transition_ticks n s)"

text \<open>\<open>n\<close> runs of the effect's work item, every PWM write succeeding.\<close>

primrec effect_steps :: "nat \<Rightarrow> fw \<Rightarrow> fw" where
  "effect_steps 0 s = s"
| "effect_steps (Suc n) s = run_effect_work 0 (effect_steps n s)"

text \<open>
  \<open>n\<close> runs of the effect's work item; \<open>pwm k\<close> is what the PWM driver answers to
  the write of run \<open>k\<close> (counted from 0).
\<close>

primrec effect_run :: "(nat \<Rightarrow> int) \<Rightarrow> nat \<Rightarrow> fw \<Rightarrow> fw" where
  "effect_run pwm 0 s = s"
| "effect_run pwm (Suc n) s = run_effect_work (pwm n) (effect_run pwm n s)"

text \<open>The pulse width \<^verbatim>\<open>light_set_brightness\<close> computes for a level.\<close>

abbreviation pwm_pulse :: "fw \<Rightarrow> u8 \<Rightarrow> u32" where
  "pwm_pulse s level \<equiv>
     word_of_nat (unat (cie1931_lut ! unat level) * unat (pwm_period s) div 255)"







text \<open>The actuator's state: what \<^verbatim>\<open>light_set_brightness\<close> and the H-bridge driver own.\<close>

definition brightness_state :: "fw \<Rightarrow> u8 \<times> bool \<times> bool \<times> bool \<times> bool \<times> bool \<times> bool" where
  "brightness_state s =
     (current_brightness s, light_is_on s, polarity_phase s, polarity_timer s,
      tb6612_standby s, tb6612_ain1 s, tb6612_ain2 s)"

text \<open>The pulse widths written to the PWM, oldest first.\<close>

fun pwm_pulses :: "event list \<Rightarrow> u32 list" where
  "pwm_pulses [] = []"
| "pwm_pulses (PWM_SET_PULSE p # es) = p # pwm_pulses es"
| "pwm_pulses (_ # es) = pwm_pulses es"

text \<open>
  The specification's effect machine has the variants None, Blink, Breathe, Okay and
  ChannelChange. The firmware is in the variant None when no effect step is scheduled
  and \<^verbatim>\<open>effect_type\<close> is none of the four scripts.
\<close>

definition effect_idle :: "fw \<Rightarrow> bool" where
  "effect_idle s =
     (effect_work s = None \<and> effect_type s \<noteq> EFFECT_ID_BLINK
      \<and> effect_type s \<noteq> EFFECT_ID_BREATHE \<and> effect_type s \<noteq> EFFECT_ID_OKAY
      \<and> effect_type s \<noteq> EFFECT_ID_CHANNEL_CHANGE)"

text \<open>The state the globals have after \<^verbatim>\<open>clusters_attr_init\<close>, for a PWM period of 1 ms.\<close>

definition example_state :: fw where
  "example_state =
     \<lparr>pwm_period = 1000000, on_off = False, start_up_on_off = 0xFF, current_level = 0xFF,
      on_off_transition_time = 10, start_up_current_level = 0xFF, press_time = 0,
      pressed = False, last_brightness = 254, effect_type = EFFECT_ID_BLINK,
      effect_step = 0, polarity_phase = False, light_is_on = False,
      polarity_timer = False, tb6612_standby = False, tb6612_ain1 = False,
      tb6612_ain2 = False, status_led = False, current_brightness = 0,
      transition_start = 0, transition_target = 0, transition_elapsed = 0,
      transition_duration = 0, transition_work = None, effect_work = None,
      long_press_work = None, uptime = 0, settings_on_off = False, settings_level = 0,
      trace = []\<rparr>"

section \<open>Properties\<close>

subsection \<open>What a brightness write changes\<close>

lemma pwm_pulses_append: "pwm_pulses (xs @ ys) = pwm_pulses xs @ pwm_pulses ys"
  by (induction xs rule: pwm_pulses.induct) simp_all

lemma light_set_brightness_trace:
  "trace (light_set_brightness r level s) =
     trace s @ PWM_SET_PULSE (word_of_nat (unat (cie1931_lut ! unat level) * unat (pwm_period s) div 255))
       # (if r = 0 then [] else [LOG_ERR ''PWM set failed''])"
  by (simp add: light_set_brightness_def Let_def tb6612_on_def tb6612_off_def)

lemma light_set_brightness_current:
  "current_brightness (light_set_brightness r level s) = (if r = 0 then level else current_brightness s)"
  by (simp add: light_set_brightness_def Let_def tb6612_on_def tb6612_off_def)

lemma light_set_brightness_is_on:
  "light_is_on (light_set_brightness r level s) = (if r = 0 then level \<noteq> 0 else light_is_on s)"
  by (simp add: light_set_brightness_def Let_def tb6612_on_def tb6612_off_def word_greater_zero_iff)

lemma light_set_brightness_frame:
  "pwm_period (light_set_brightness r level s) = pwm_period s"
  "on_off (light_set_brightness r level s) = on_off s"
  "start_up_on_off (light_set_brightness r level s) = start_up_on_off s"
  "current_level (light_set_brightness r level s) = current_level s"
  "on_off_transition_time (light_set_brightness r level s) = on_off_transition_time s"
  "start_up_current_level (light_set_brightness r level s) = start_up_current_level s"
  "press_time (light_set_brightness r level s) = press_time s"
  "pressed (light_set_brightness r level s) = pressed s"
  "last_brightness (light_set_brightness r level s) = last_brightness s"
  "effect_type (light_set_brightness r level s) = effect_type s"
  "effect_step (light_set_brightness r level s) = effect_step s"
  "status_led (light_set_brightness r level s) = status_led s"
  "transition_start (light_set_brightness r level s) = transition_start s"
  "transition_target (light_set_brightness r level s) = transition_target s"
  "transition_elapsed (light_set_brightness r level s) = transition_elapsed s"
  "transition_duration (light_set_brightness r level s) = transition_duration s"
  "transition_work (light_set_brightness r level s) = transition_work s"
  "effect_work (light_set_brightness r level s) = effect_work s"
  "long_press_work (light_set_brightness r level s) = long_press_work s"
  "uptime (light_set_brightness r level s) = uptime s"
  "settings_on_off (light_set_brightness r level s) = settings_on_off s"
  "settings_level (light_set_brightness r level s) = settings_level s"
  by (simp_all add: light_set_brightness_def Let_def tb6612_on_def tb6612_off_def)

lemmas light_set_brightness_simps =
  light_set_brightness_trace light_set_brightness_current light_set_brightness_is_on
  light_set_brightness_frame


lemma light_fade_to_work:
  "transition_work (light_fade_to r target d s) =
     (if d = 0 \<or> current_brightness s = target then None else Some (uptime s))"
  by (simp add: light_fade_to_def Let_def light_set_brightness_simps k_work_schedule_def)

lemma light_fade_to_current:
  "current_brightness (light_fade_to r target d s) =
     (if (d = 0 \<or> current_brightness s = target) \<and> r = 0 then target else current_brightness s)"
  by (simp add: light_fade_to_def Let_def light_set_brightness_simps)

lemma light_fade_to_transition:
  "transition_start (light_fade_to r target d s) =
     (if d = 0 \<or> current_brightness s = target then transition_start s else current_brightness s)"
  "transition_target (light_fade_to r target d s) =
     (if d = 0 \<or> current_brightness s = target then transition_target s else target)"
  "transition_elapsed (light_fade_to r target d s) =
     (if d = 0 \<or> current_brightness s = target then transition_elapsed s else 0)"
  "transition_duration (light_fade_to r target d s) =
     (if d = 0 \<or> current_brightness s = target then transition_duration s else d)"
  by (simp_all add: light_fade_to_def Let_def light_set_brightness_simps)

lemma light_fade_to_frame:
  "pwm_period (light_fade_to r target d s) = pwm_period s"
  "on_off (light_fade_to r target d s) = on_off s"
  "current_level (light_fade_to r target d s) = current_level s"
  "on_off_transition_time (light_fade_to r target d s) = on_off_transition_time s"
  "press_time (light_fade_to r target d s) = press_time s"
  "pressed (light_fade_to r target d s) = pressed s"
  "last_brightness (light_fade_to r target d s) = last_brightness s"
  "effect_type (light_fade_to r target d s) = effect_type s"
  "effect_step (light_fade_to r target d s) = effect_step s"
  "effect_work (light_fade_to r target d s) = effect_work s"
  "long_press_work (light_fade_to r target d s) = long_press_work s"
  "uptime (light_fade_to r target d s) = uptime s"
  by (simp_all add: light_fade_to_def Let_def light_set_brightness_simps)

lemmas light_fade_to_simps =
  light_fade_to_work light_fade_to_current light_fade_to_transition light_fade_to_frame


subsection \<open>The brightness mapper\<close>

text \<open>
  C2, as the code has it. When the PWM write fails, \<^verbatim>\<open>light_set_brightness\<close> logs the
  failure and returns at once: nothing but the log changes. The requested level is
  not recorded: the current brightness and the H-bridge driver are as they were
  before the call.
\<close>

theorem light_set_brightness_pwm_failure:
  assumes "pwm_ret \<noteq> 0"
  shows "light_set_brightness pwm_ret level s =
           s\<lparr>trace := trace s @
               [PWM_SET_PULSE (word_of_nat
                  (unat (cie1931_lut ! unat level) * unat (pwm_period s) div 255)),
                LOG_ERR ''PWM set failed'']\<rparr>
         \<and> current_brightness (light_set_brightness pwm_ret level s) = current_brightness s
         \<and> brightness_state (light_set_brightness pwm_ret level s) = brightness_state s"
  using assms by (simp add: light_set_brightness_def Let_def brightness_state_def)

theorem light_set_brightness_pwm_failure_witness:
  "current_brightness (light_set_brightness (- 5) 255 example_state) = 0
   \<and> trace (light_set_brightness (- 5) 255 example_state) =
       [PWM_SET_PULSE 1000000, LOG_ERR ''PWM set failed'']"
  using light_set_brightness_pwm_failure [of "- 5" 255 example_state]
  by (simp add: example_state_def cie1931_lut_def)

text \<open>
  C2 as stated fails: a write of level 255 that the PWM driver refuses with \<open>-EIO\<close>
  leaves the current brightness at 0, not at the requested 255.
\<close>

theorem light_set_brightness_not_recorded:
  "\<not> current_brightness (light_set_brightness (- 5) 255 example_state) = 255"
  by (simp add: light_set_brightness_def Let_def example_state_def)

text \<open>
  C9 as stated fails: when the PWM refuses the first write of level 255 and accepts
  the second, the second call is the one that records the level and switches the
  H-bridge on, so it does not leave the actuator's state unchanged.
\<close>

theorem light_set_brightness_second_call_records:
  "\<not> brightness_state (light_set_brightness 0 255 (light_set_brightness (- 5) 255 example_state)) =
       brightness_state (light_set_brightness (- 5) 255 example_state)"
  by (simp add: light_set_brightness_def Let_def tb6612_on_def tb6612_off_def
        brightness_state_def example_state_def)

text \<open>
  C9, as the code has it. For every level, a second call of \<^verbatim>\<open>light_set_brightness\<close>
  with the same level hands the same pulse width to the PWM as the first. It leaves
  the actuator's state (current brightness, on/off flag, polarity phase and timer,
  H-bridge pins) as the first call left it, provided the first call's PWM write
  succeeded or the second call's write fails as well.
\<close>

theorem light_set_brightness_idempotent:
  assumes "r1 = 0 \<or> r2 \<noteq> 0"
  shows "brightness_state (light_set_brightness r2 level (light_set_brightness r1 level s)) =
           brightness_state (light_set_brightness r1 level s)
         \<and> (\<exists>pulse. pwm_pulses (trace (light_set_brightness r2 level
                                          (light_set_brightness r1 level s))) =
               pwm_pulses (trace s) @ [pulse, pulse])"
proof
  show "brightness_state (light_set_brightness r2 level (light_set_brightness r1 level s)) =
     brightness_state (light_set_brightness r1 level s)"
    using assms
    by (auto simp add: light_set_brightness_def Let_def tb6612_on_def tb6612_off_def
          brightness_state_def word_greater_zero_iff)
  show "\<exists>pulse. pwm_pulses (trace (light_set_brightness r2 level
                                    (light_set_brightness r1 level s))) =
         pwm_pulses (trace s) @ [pulse, pulse]"
    by (simp add: light_set_brightness_simps pwm_pulses_append)
qed

theorem light_set_brightness_idempotent_witness:
  "brightness_state (light_set_brightness 0 200 (light_set_brightness 0 200 example_state)) =
     (200, True, False, True, True, True, False)
   \<and> brightness_state (light_set_brightness (- 5) 200 (light_set_brightness 0 200 example_state)) =
     (200, True, False, True, True, True, False)
   \<and> brightness_state (light_set_brightness (- 5) 200 (light_set_brightness (- 5) 200 example_state)) =
     brightness_state example_state"
  using light_set_brightness_idempotent [of 0 0 200 example_state]
    light_set_brightness_idempotent [of 0 "- 5" 200 example_state]
    light_set_brightness_idempotent [of "- 5" "- 5" 200 example_state]
  by (simp add: light_set_brightness_def Let_def tb6612_on_def tb6612_off_def
        brightness_state_def example_state_def)

subsection \<open>Toggling\<close>

text \<open>
  C10. When \<^verbatim>\<open>light_toggle\<close> switches the light from off to on, the level it fades to
  is strictly positive: the current level if that is positive, otherwise the
  remembered last brightness if that is positive, otherwise 255. The level becomes the
  level attribute and the remembered brightness; the fade is scheduled towards it
  (or, when the brightness already stands there, it is written at once).
\<close>

theorem light_toggle_on_target:
  assumes "\<not> on_off s"
  shows "(let t = (if 0 < current_level s then current_level s
                   else if 0 < last_brightness s then last_brightness s else 255);
              s' = light_toggle pwm_ret s
          in 0 < t \<and> on_off s' \<and> current_level s' = t \<and> last_brightness s' = t
             \<and> (if current_brightness s = t
                 then transition_work s' = None \<and> current_brightness s' = t
                 else transition_work s' = Some (uptime s) \<and> transition_target s' = t
                      \<and> transition_start s' = current_brightness s))"
  using assms
  by (cases "current_level s = 0"; cases "last_brightness s = 0";
      simp add: light_toggle_def Let_def light_fade_to_simps save_light_state_def
        word_greater_zero_iff)

theorem light_toggle_on_target_witness:
  "on_off (light_toggle 0 example_state)
   \<and> current_level (light_toggle 0 example_state) = 255
   \<and> transition_target (light_toggle 0 example_state) = 255
   \<and> transition_work (light_toggle 0 example_state) = Some 0"
  using light_toggle_on_target [of example_state 0]
  by (simp add: example_state_def Let_def)

subsection \<open>Startup behaviour\<close>


subsection \<open>The battery curve\<close>

text \<open>
  C5 as stated fails: read in table order the percentages fall (100, 95, ...), so the
  table is not non-decreasing in percent.
\<close>

theorem lipo_discharge_curve_percent_not_nondecreasing:
  "\<not> sorted_wrt (\<lambda>a b. percent a \<le> percent b) lipo_discharge_curve"
  by (simp add: lipo_discharge_curve_def)

text \<open>
  C5, as the code has it. The calibration table is a fixed sequence of 21 points from
  4200 mV / 100 % to 3000 mV / 0 % that, read in table order, is strictly decreasing
  in millivolts and non-increasing in percent.
\<close>

theorem lipo_discharge_curve_monotone:
  "length lipo_discharge_curve = 21
   \<and> hd lipo_discharge_curve = \<lparr>mv = 4200, percent = 100\<rparr>
   \<and> last lipo_discharge_curve = \<lparr>mv = 3000, percent = 0\<rparr>
   \<and> sorted_wrt (\<lambda>a b. mv b < mv a) lipo_discharge_curve
   \<and> sorted_wrt (\<lambda>a b. percent b \<le> percent a) lipo_discharge_curve"
  by (simp add: lipo_discharge_curve_def)

lemma curve_length: "length lipo_discharge_curve = 21"
  by (simp add: lipo_discharge_curve_def)

lemma curve_size: "BATTERY_CURVE_SIZE = 21"
  by (simp add: BATTERY_CURVE_SIZE_def curve_length)

lemma curve_mv_desc:
  assumes "i < j" and "j < 21"
  shows "mv (lipo_discharge_curve ! j) < mv (lipo_discharge_curve ! i)"
proof -
  have "sorted_wrt (\<lambda>a b. mv b < mv a) lipo_discharge_curve"
    by (simp add: lipo_discharge_curve_def)
  moreover have "j < length lipo_discharge_curve"
    using assms(2) by (simp add: curve_length)
  ultimately show ?thesis
    using sorted_wrt_nth_less assms(1) by blast
qed

lemma curve_percent_desc:
  assumes "i < j" and "j < 21"
  shows "percent (lipo_discharge_curve ! j) \<le> percent (lipo_discharge_curve ! i)"
proof -
  have "sorted_wrt (\<lambda>a b. percent b \<le> percent a) lipo_discharge_curve"
    by (simp add: lipo_discharge_curve_def)
  moreover have "j < length lipo_discharge_curve"
    using assms(2) by (simp add: curve_length)
  ultimately show ?thesis
    using sorted_wrt_nth_less assms(1) by blast
qed

lemma curve_percent_le_100:
  assumes "i < 21"
  shows "percent (lipo_discharge_curve ! i) \<le> 100"
proof -
  have "\<forall>p \<in> set lipo_discharge_curve. percent p \<le> 100"
    by (simp add: lipo_discharge_curve_def)
  then show ?thesis
    using assms by (simp add: curve_length)
qed

lemma curve_ends:
  "mv (lipo_discharge_curve ! 0) = 4200" "mv (lipo_discharge_curve ! 20) = 3000"
  by (simp_all add: lipo_discharge_curve_def)

text \<open>The loop stops at the first bracket below the entry it starts from.\<close>

lemma battery_find_points_bracket:
  assumes "i < 20" and "voltage_mv < mv (lipo_discharge_curve ! i)" and "3000 < voltage_mv"
  shows "\<exists>j. i \<le> j \<and> j < 20
           \<and> mv (lipo_discharge_curve ! (j + 1)) \<le> voltage_mv
           \<and> voltage_mv < mv (lipo_discharge_curve ! j)
           \<and> battery_find_points voltage_mv i = battery_interpolate voltage_mv j"
  using assms
proof (induction voltage_mv i rule: battery_find_points.induct)
  case (1 voltage_mv i)
  show ?case
  proof (cases "mv (lipo_discharge_curve ! (i + 1)) \<le> voltage_mv")
    case True
    with "1.prems" have "battery_find_points voltage_mv i = battery_interpolate voltage_mv i"
      by (simp add: battery_find_points.simps [of voltage_mv i] curve_size)
    with True "1.prems" show ?thesis by blast
  next
    case False
    then have below: "voltage_mv < mv (lipo_discharge_curve ! (i + 1))" by simp
    have "i + 1 \<noteq> 20"
      using below "1.prems"(3) by (auto simp add: curve_ends)
    with "1.prems"(1) have i1: "i + 1 < 20" by simp
    from "1.prems"(1) have "i < BATTERY_CURVE_SIZE - 1" by (simp add: curve_size)
    from "1.IH" [OF this False i1 below "1.prems"(3)]
    obtain j where j: "i + 1 \<le> j" "j < 20"
        "mv (lipo_discharge_curve ! (j + 1)) \<le> voltage_mv"
        "voltage_mv < mv (lipo_discharge_curve ! j)"
        "battery_find_points voltage_mv (i + 1) = battery_interpolate voltage_mv j"
      by blast
    from False "1.prems"(1)
    have "battery_find_points voltage_mv i = battery_find_points voltage_mv (i + 1)"
      by (simp add: battery_find_points.simps [of voltage_mv i] curve_size)
    with j show ?thesis
      by (metis Suc_eq_plus1 Suc_leD)
  qed
qed

lemma len8: "LENGTH(8) = 8"
  by simp

lemma sdiv_nonneg:
  assumes "0 \<le> (a :: int)" and "0 < b"
  shows "a sdiv b = a div b"
  using assms by (cases "a = 0") (simp_all add: signed_divide_int_def sgn_if)

text \<open>The value of the interpolation inside a bracket: no conversion wraps.\<close>

lemma battery_interpolate_value:
  assumes "j < 20"
    and "mv (lipo_discharge_curve ! (j + 1)) \<le> voltage_mv"
    and "voltage_mv < mv (lipo_discharge_curve ! j)"
  shows "uint (battery_interpolate voltage_mv j) =
           uint (percent (lipo_discharge_curve ! (j + 1))) +
             (uint voltage_mv - uint (mv (lipo_discharge_curve ! (j + 1)))) *
             (uint (percent (lipo_discharge_curve ! j)) -
                uint (percent (lipo_discharge_curve ! (j + 1))))
             div (uint (mv (lipo_discharge_curve ! j)) -
                  uint (mv (lipo_discharge_curve ! (j + 1))))"
    and "percent (lipo_discharge_curve ! (j + 1)) \<le> battery_interpolate voltage_mv j"
    and "battery_interpolate voltage_mv j \<le> percent (lipo_discharge_curve ! j)"
proof -
  define vh where "vh = uint (mv (lipo_discharge_curve ! j))"
  define vl where "vl = uint (mv (lipo_discharge_curve ! (j + 1)))"
  define ph where "ph = uint (percent (lipo_discharge_curve ! j))"
  define pl where "pl = uint (percent (lipo_discharge_curve ! (j + 1)))"
  define v where "v = uint voltage_mv"
  have vlh: "vl < vh"
    using curve_mv_desc [of j "j + 1"] assms(1) by (simp add: vl_def vh_def word_less_def)
  have plh: "pl \<le> ph"
    using curve_percent_desc [of j "j + 1"] assms(1) by (simp add: pl_def ph_def word_le_def)
  have ph100: "ph \<le> 100"
    using curve_percent_le_100 [of j] assms(1) by (simp add: ph_def word_le_def)
  have pl0: "0 \<le> pl" by (simp add: pl_def)
  have v1: "vl \<le> v" using assms(2) by (simp add: vl_def v_def word_le_def)
  have v2: "v < vh" using assms(3) by (simp add: vh_def v_def word_less_def)
  have q0: "0 \<le> (v - vl) * (ph - pl) div (vh - vl)"
    using v1 plh vlh by (simp add: pos_imp_zdiv_nonneg_iff)
  have q: "(v - vl) * (ph - pl) div (vh - vl) \<le> ph - pl"
  proof -
    have le: "(v - vl) * (ph - pl) \<le> (vh - vl) * (ph - pl)"
      using v2 plh by (simp add: mult_right_mono)
    have pos: "0 < vh - vl"
      using vlh by simp
    from zdiv_mono1 [OF le pos] vlh show ?thesis by simp
  qed
  have vr: "uint (mv (lipo_discharge_curve ! j) - mv (lipo_discharge_curve ! (j + 1))) = vh - vl"
    unfolding vh_def vl_def
    by (rule uint_sub_lem [THEN iffD1]) (use vlh in \<open>simp add: vh_def vl_def\<close>)
  have pr: "uint (percent (lipo_discharge_curve ! j) - percent (lipo_discharge_curve ! (j + 1)))
              = ph - pl"
    unfolding ph_def pl_def
    by (rule uint_sub_lem [THEN iffD1]) (use plh in \<open>simp add: ph_def pl_def\<close>)
  have "((v - vl) * (ph - pl)) sdiv (vh - vl) = (v - vl) * (ph - pl) div (vh - vl)"
    using v1 plh vlh by (intro sdiv_nonneg) simp_all
  then have expr: "battery_interpolate voltage_mv j =
                     word_of_int (pl + (v - vl) * (ph - pl) div (vh - vl))"
    unfolding battery_interpolate_def Let_def vr pr
    by (simp only: vh_def vl_def ph_def pl_def v_def)
  have res: "uint (battery_interpolate voltage_mv j) = pl + (v - vl) * (ph - pl) div (vh - vl)"
  proof -
    have "pl + (v - vl) * (ph - pl) div (vh - vl) < 2 ^ 8"
      using q plh ph100 by simp
    moreover have "0 \<le> pl + (v - vl) * (ph - pl) div (vh - vl)"
      using q0 pl0 by simp
    ultimately show ?thesis
      unfolding expr by (simp only: uint_word_of_int_eq take_bit_int_eq_self len8)
  qed
  show "uint (battery_interpolate voltage_mv j) =
           uint (percent (lipo_discharge_curve ! (j + 1))) +
             (uint voltage_mv - uint (mv (lipo_discharge_curve ! (j + 1)))) *
             (uint (percent (lipo_discharge_curve ! j)) -
                uint (percent (lipo_discharge_curve ! (j + 1))))
             div (uint (mv (lipo_discharge_curve ! j)) -
                  uint (mv (lipo_discharge_curve ! (j + 1))))"
    using res by (simp only: pl_def v_def vl_def ph_def vh_def)
  show "percent (lipo_discharge_curve ! (j + 1)) \<le> battery_interpolate voltage_mv j"
    unfolding word_le_def using res q0 by (simp add: pl_def)
  show "battery_interpolate voltage_mv j \<le> percent (lipo_discharge_curve ! j)"
    unfolding word_le_def using res q by (simp add: pl_def ph_def)
qed


text \<open>
  C4. \<^verbatim>\<open>battery_mv_to_percent\<close> returns 100 at or above 4200 mV and 0 at or below
  3000 mV. Strictly between, it finds the bracket of adjacent calibration points
  (read from the top of the table) that holds the input, and returns the linear
  interpolation of the percentage inside that bracket, which lies between the
  bracket's two percentages. In particular 4200 mV and 5000 mV give 100, 3000 mV
  gives 0 and 3800 mV, a calibration point, gives 50.
\<close>

theorem battery_mv_to_percent_interpolates:
  "(4200 \<le> voltage_mv \<longrightarrow> battery_mv_to_percent voltage_mv = 100)
   \<and> (voltage_mv \<le> 3000 \<longrightarrow> battery_mv_to_percent voltage_mv = 0)
   \<and> (3000 < voltage_mv \<and> voltage_mv < 4200 \<longrightarrow>
        (\<exists>i<20. mv (lipo_discharge_curve ! (i + 1)) \<le> voltage_mv
            \<and> voltage_mv < mv (lipo_discharge_curve ! i)
            \<and> uint (battery_mv_to_percent voltage_mv) =
                uint (percent (lipo_discharge_curve ! (i + 1))) +
                  (uint voltage_mv - uint (mv (lipo_discharge_curve ! (i + 1)))) *
                  (uint (percent (lipo_discharge_curve ! i)) -
                     uint (percent (lipo_discharge_curve ! (i + 1))))
                  div (uint (mv (lipo_discharge_curve ! i)) -
                       uint (mv (lipo_discharge_curve ! (i + 1))))
            \<and> percent (lipo_discharge_curve ! (i + 1)) \<le> battery_mv_to_percent voltage_mv
            \<and> battery_mv_to_percent voltage_mv \<le> percent (lipo_discharge_curve ! i)))
   \<and> battery_mv_to_percent 4200 = 100
   \<and> battery_mv_to_percent 5000 = 100
   \<and> battery_mv_to_percent 3000 = 0
   \<and> battery_mv_to_percent 3800 = 50"
proof (intro conjI impI)
  assume "4200 \<le> voltage_mv"
  then show "battery_mv_to_percent voltage_mv = 100"
    by (simp add: battery_mv_to_percent_def curve_ends)
next
  assume low: "voltage_mv \<le> 3000"
  then have "\<not> 4200 \<le> voltage_mv"
    by (simp add: word_le_def)
  with low show "battery_mv_to_percent voltage_mv = 0"
    by (simp add: battery_mv_to_percent_def curve_ends curve_size)
next
  assume range: "3000 < voltage_mv \<and> voltage_mv < 4200"
  then have below: "voltage_mv < mv (lipo_discharge_curve ! 0)"
    by (simp add: curve_ends)
  from range have loop: "battery_mv_to_percent voltage_mv = battery_find_points voltage_mv 0"
    by (simp add: battery_mv_to_percent_def curve_ends curve_size not_le [symmetric])
  from battery_find_points_bracket [OF _ below] range
  obtain j where j: "j < 20"
      "mv (lipo_discharge_curve ! (j + 1)) \<le> voltage_mv"
      "voltage_mv < mv (lipo_discharge_curve ! j)"
      "battery_find_points voltage_mv 0 = battery_interpolate voltage_mv j"
    by auto
  from battery_interpolate_value [OF j(1-3)] j loop
  show "\<exists>i<20. mv (lipo_discharge_curve ! (i + 1)) \<le> voltage_mv
            \<and> voltage_mv < mv (lipo_discharge_curve ! i)
            \<and> uint (battery_mv_to_percent voltage_mv) =
                uint (percent (lipo_discharge_curve ! (i + 1))) +
                  (uint voltage_mv - uint (mv (lipo_discharge_curve ! (i + 1)))) *
                  (uint (percent (lipo_discharge_curve ! i)) -
                     uint (percent (lipo_discharge_curve ! (i + 1))))
                  div (uint (mv (lipo_discharge_curve ! i)) -
                       uint (mv (lipo_discharge_curve ! (i + 1))))
            \<and> percent (lipo_discharge_curve ! (i + 1)) \<le> battery_mv_to_percent voltage_mv
            \<and> battery_mv_to_percent voltage_mv \<le> percent (lipo_discharge_curve ! i)"
    by (intro exI [of _ j]) (simp only: simp_thms)
next
  show "battery_mv_to_percent 4200 = 100" by code_simp
  show "battery_mv_to_percent 5000 = 100" by code_simp
  show "battery_mv_to_percent 3000 = 0" by code_simp
  show "battery_mv_to_percent 3800 = 50" by code_simp
qed

theorem battery_mv_to_percent_interpolates_witness:
  "battery_mv_to_percent 4300 = 100
   \<and> battery_mv_to_percent 2900 = 0
   \<and> (\<exists>i<20. mv (lipo_discharge_curve ! (i + 1)) \<le> 3820
         \<and> 3820 < mv (lipo_discharge_curve ! i)
         \<and> uint (battery_mv_to_percent 3820) =
             uint (percent (lipo_discharge_curve ! (i + 1))) +
               (uint (3820 :: u16) - uint (mv (lipo_discharge_curve ! (i + 1)))) *
               (uint (percent (lipo_discharge_curve ! i)) -
                  uint (percent (lipo_discharge_curve ! (i + 1))))
               div (uint (mv (lipo_discharge_curve ! i)) -
                    uint (mv (lipo_discharge_curve ! (i + 1))))
         \<and> percent (lipo_discharge_curve ! (i + 1)) \<le> battery_mv_to_percent 3820
         \<and> battery_mv_to_percent 3820 \<le> percent (lipo_discharge_curve ! i))"
  using battery_mv_to_percent_interpolates [of 4300]
    battery_mv_to_percent_interpolates [of 2900]
    battery_mv_to_percent_interpolates [of 3820]
  by simp

subsection \<open>The identify effect engine\<close>

lemma restore_previous_state_current:
  "current_brightness (restore_previous_state r s) =
     (if r = 0 then (if on_off s then current_level s else 0) else current_brightness s)"
  by (simp add: restore_previous_state_def light_set_brightness_simps)

lemma restore_previous_state_frame:
  "on_off (restore_previous_state r s) = on_off s"
  "current_level (restore_previous_state r s) = current_level s"
  "effect_type (restore_previous_state r s) = effect_type s"
  "effect_step (restore_previous_state r s) = effect_step s"
  "effect_work (restore_previous_state r s) = effect_work s"
  "transition_start (restore_previous_state r s) = transition_start s"
  "transition_target (restore_previous_state r s) = transition_target s"
  "transition_elapsed (restore_previous_state r s) = transition_elapsed s"
  "transition_duration (restore_previous_state r s) = transition_duration s"
  "transition_work (restore_previous_state r s) = transition_work s"
  "uptime (restore_previous_state r s) = uptime s"
  by (simp_all add: restore_previous_state_def light_set_brightness_simps)

lemmas restore_previous_state_simps = restore_previous_state_current restore_previous_state_frame

text \<open>Starting an effect.\<close>

lemma start_identify_effect_fields:
  "effect_step (start_identify_effect r e s) = 0"
  "effect_type (start_identify_effect r e s) = e"
  "effect_work (start_identify_effect r e s) =
     (if e = EFFECT_ID_STOP \<or> e = EFFECT_ID_FINISH_EFFECT then None else Some (uptime s))"
  "on_off (start_identify_effect r e s) = on_off s"
  "current_level (start_identify_effect r e s) = current_level s"
  "current_brightness (start_identify_effect r e s) =
     (if (e = EFFECT_ID_STOP \<or> e = EFFECT_ID_FINISH_EFFECT) \<and> r = 0
      then (if on_off s then current_level s else 0) else current_brightness s)"
  "transition_work (start_identify_effect r e s) = transition_work s"
  "transition_start (start_identify_effect r e s) = transition_start s"
  "transition_target (start_identify_effect r e s) = transition_target s"
  "transition_elapsed (start_identify_effect r e s) = transition_elapsed s"
  "transition_duration (start_identify_effect r e s) = transition_duration s"
  "uptime (start_identify_effect r e s) = uptime s"
  by (simp_all add: start_identify_effect_def Let_def restore_previous_state_simps
        k_work_schedule_def)

text \<open>One run of the effect's work item, by the branch of the handler it takes.\<close>

lemma run_blink_on:
  assumes "effect_work s = Some t" and "effect_type s = EFFECT_ID_BLINK" and "effect_step s = 0"
  shows "effect_type (run_effect_work r s) = EFFECT_ID_BLINK
       \<and> effect_step (run_effect_work r s) = effect_step s + 1
       \<and> effect_work (run_effect_work r s) = Some (max (uptime s) t + 500)
       \<and> current_brightness (run_effect_work r s) =
           (if r = 0 then 255 else current_brightness s)
       \<and> on_off (run_effect_work r s) = on_off s
       \<and> current_level (run_effect_work r s) = current_level s"
  using assms
  by (simp add: run_effect_work_def effect_work_handler_def Let_def
        light_set_brightness_simps k_work_schedule_def)

lemma run_blink_restore:
  assumes "effect_work s = Some t" and "effect_type s = EFFECT_ID_BLINK" and "effect_step s \<noteq> 0"
  shows "effect_type (run_effect_work r s) = EFFECT_ID_STOP
       \<and> effect_work (run_effect_work r s) = None
       \<and> current_brightness (run_effect_work r s) =
           (if r = 0 then (if on_off s then current_level s else 0) else current_brightness s)
       \<and> on_off (run_effect_work r s) = on_off s
       \<and> current_level (run_effect_work r s) = current_level s"
  using assms
  by (simp add: run_effect_work_def effect_work_handler_def restore_previous_state_simps)

lemma run_breathe_alternate:
  assumes "effect_work s = Some t" and "effect_type s = EFFECT_ID_BREATHE" and "effect_step s < 30"
  shows "effect_type (run_effect_work r s) = EFFECT_ID_BREATHE
       \<and> effect_step (run_effect_work r s) = effect_step s + 1
       \<and> effect_work (run_effect_work r s) = Some (max (uptime s) t + 500)
       \<and> current_brightness (run_effect_work r s) =
           (if r = 0 then (if even (effect_step s) then 255 else 0) else current_brightness s)
       \<and> on_off (run_effect_work r s) = on_off s
       \<and> current_level (run_effect_work r s) = current_level s"
  using assms
  by (simp add: run_effect_work_def effect_work_handler_def Let_def
        light_set_brightness_simps k_work_schedule_def mod2_eq_if)

lemma run_breathe_restore:
  assumes "effect_work s = Some t" and "effect_type s = EFFECT_ID_BREATHE" and "\<not> effect_step s < 30"
  shows "effect_type (run_effect_work r s) = EFFECT_ID_STOP
       \<and> effect_work (run_effect_work r s) = None
       \<and> current_brightness (run_effect_work r s) =
           (if r = 0 then (if on_off s then current_level s else 0) else current_brightness s)
       \<and> on_off (run_effect_work r s) = on_off s
       \<and> current_level (run_effect_work r s) = current_level s"
  using assms
  by (simp add: run_effect_work_def effect_work_handler_def restore_previous_state_simps)

lemma run_okay_alternate:
  assumes "effect_work s = Some t" and "effect_type s = EFFECT_ID_OKAY" and "effect_step s < 4"
  shows "effect_type (run_effect_work r s) = EFFECT_ID_OKAY
       \<and> effect_step (run_effect_work r s) = effect_step s + 1
       \<and> effect_work (run_effect_work r s) = Some (max (uptime s) t + 200)
       \<and> current_brightness (run_effect_work r s) =
           (if r = 0 then (if even (effect_step s) then 255 else 0) else current_brightness s)
       \<and> on_off (run_effect_work r s) = on_off s
       \<and> current_level (run_effect_work r s) = current_level s"
  using assms
  by (simp add: run_effect_work_def effect_work_handler_def Let_def
        light_set_brightness_simps k_work_schedule_def mod2_eq_if)

lemma run_okay_restore:
  assumes "effect_work s = Some t" and "effect_type s = EFFECT_ID_OKAY" and "\<not> effect_step s < 4"
  shows "effect_type (run_effect_work r s) = EFFECT_ID_STOP
       \<and> effect_work (run_effect_work r s) = None
       \<and> current_brightness (run_effect_work r s) =
           (if r = 0 then (if on_off s then current_level s else 0) else current_brightness s)
       \<and> on_off (run_effect_work r s) = on_off s
       \<and> current_level (run_effect_work r s) = current_level s"
  using assms
  by (simp add: run_effect_work_def effect_work_handler_def restore_previous_state_simps)

lemma run_channel_change_bright:
  assumes "effect_work s = Some t" and "effect_type s = EFFECT_ID_CHANNEL_CHANGE" and "effect_step s = 0"
  shows "effect_type (run_effect_work r s) = EFFECT_ID_CHANNEL_CHANGE
       \<and> effect_step (run_effect_work r s) = effect_step s + 1
       \<and> effect_work (run_effect_work r s) = Some (max (uptime s) t + 500)
       \<and> current_brightness (run_effect_work r s) =
           (if r = 0 then 255 else current_brightness s)
       \<and> on_off (run_effect_work r s) = on_off s
       \<and> current_level (run_effect_work r s) = current_level s"
  using assms
  by (simp add: run_effect_work_def effect_work_handler_def Let_def
        light_set_brightness_simps k_work_schedule_def)

lemma run_channel_change_dim:
  assumes "effect_work s = Some t" and "effect_type s = EFFECT_ID_CHANNEL_CHANGE" and "effect_step s = 1"
  shows "effect_type (run_effect_work r s) = EFFECT_ID_CHANNEL_CHANGE
       \<and> effect_step (run_effect_work r s) = effect_step s + 1
       \<and> effect_work (run_effect_work r s) = Some (max (uptime s) t + 7500)
       \<and> current_brightness (run_effect_work r s) =
           (if r = 0 then 25 else current_brightness s)
       \<and> on_off (run_effect_work r s) = on_off s
       \<and> current_level (run_effect_work r s) = current_level s"
  using assms
  by (simp add: run_effect_work_def effect_work_handler_def Let_def
        light_set_brightness_simps k_work_schedule_def)

lemma run_channel_change_restore:
  assumes "effect_work s = Some t" and "effect_type s = EFFECT_ID_CHANNEL_CHANGE" and "effect_step s \<noteq> 0 \<and> effect_step s \<noteq> 1"
  shows "effect_type (run_effect_work r s) = EFFECT_ID_STOP
       \<and> effect_work (run_effect_work r s) = None
       \<and> current_brightness (run_effect_work r s) =
           (if r = 0 then (if on_off s then current_level s else 0) else current_brightness s)
       \<and> on_off (run_effect_work r s) = on_off s
       \<and> current_level (run_effect_work r s) = current_level s"
  using assms
  by (simp add: run_effect_work_def effect_work_handler_def restore_previous_state_simps)

lemma run_finish_restore:
  assumes "effect_work s = Some t" and "effect_type s = EFFECT_ID_FINISH_EFFECT"
  shows "effect_type (run_effect_work r s) = EFFECT_ID_STOP
       \<and> effect_work (run_effect_work r s) = None
       \<and> current_brightness (run_effect_work r s) =
           (if r = 0 then (if on_off s then current_level s else 0) else current_brightness s)
       \<and> on_off (run_effect_work r s) = on_off s
       \<and> current_level (run_effect_work r s) = current_level s"
  using assms
  by (simp add: run_effect_work_def effect_work_handler_def restore_previous_state_simps)

lemma run_stop_restore:
  assumes "effect_work s = Some t" and "effect_type s = EFFECT_ID_STOP"
  shows "effect_type (run_effect_work r s) = EFFECT_ID_STOP
       \<and> effect_work (run_effect_work r s) = None
       \<and> current_brightness (run_effect_work r s) =
           (if r = 0 then (if on_off s then current_level s else 0) else current_brightness s)
       \<and> on_off (run_effect_work r s) = on_off s
       \<and> current_level (run_effect_work r s) = current_level s"
  using assms
  by (simp add: run_effect_work_def effect_work_handler_def restore_previous_state_simps)

lemma run_other_restore:
  assumes "effect_work s = Some t" and "effect_type s = EFFECT_ID_OTHER b"
  shows "effect_type (run_effect_work r s) = EFFECT_ID_STOP
       \<and> effect_work (run_effect_work r s) = None
       \<and> current_brightness (run_effect_work r s) =
           (if r = 0 then (if on_off s then current_level s else 0) else current_brightness s)
       \<and> on_off (run_effect_work r s) = on_off s
       \<and> current_level (run_effect_work r s) = current_level s"
  using assms
  by (simp add: run_effect_work_def effect_work_handler_def restore_previous_state_simps)


lemma u8_of_nat_less:
  assumes "k < n" and "n < 256"
  shows "(of_nat k :: u8) < of_nat n"
  using assms by (simp add: word_less_nat_alt unat_of_nat)

text \<open>The PWM write of one run of the effect's work item, by the branch it takes.\<close>

lemma run_blink_on_pulses:
  assumes "effect_work s = Some t" and "effect_type s = EFFECT_ID_BLINK" and "effect_step s = 0"
  shows "pwm_period (run_effect_work r s) = pwm_period s
       \<and> pwm_pulses (trace (run_effect_work r s)) =
           pwm_pulses (trace s) @ [pwm_pulse s 255]"
  using assms
  by (simp add: run_effect_work_def effect_work_handler_def Let_def
        restore_previous_state_def light_set_brightness_simps pwm_pulses_append
        mod2_eq_if)

lemma run_blink_restore_pulses:
  assumes "effect_work s = Some t" and "effect_type s = EFFECT_ID_BLINK" and "effect_step s \<noteq> 0"
  shows "pwm_period (run_effect_work r s) = pwm_period s
       \<and> pwm_pulses (trace (run_effect_work r s)) =
           pwm_pulses (trace s) @ [pwm_pulse s (if on_off s then current_level s else 0)]"
  using assms
  by (simp add: run_effect_work_def effect_work_handler_def Let_def
        restore_previous_state_def light_set_brightness_simps pwm_pulses_append
        mod2_eq_if)

lemma run_breathe_alternate_pulses:
  assumes "effect_work s = Some t" and "effect_type s = EFFECT_ID_BREATHE" and "effect_step s < 30"
  shows "pwm_period (run_effect_work r s) = pwm_period s
       \<and> pwm_pulses (trace (run_effect_work r s)) =
           pwm_pulses (trace s) @ [pwm_pulse s (if even (effect_step s) then 255 else 0)]"
  using assms
  by (simp add: run_effect_work_def effect_work_handler_def Let_def
        restore_previous_state_def light_set_brightness_simps pwm_pulses_append
        mod2_eq_if)

lemma run_breathe_restore_pulses:
  assumes "effect_work s = Some t" and "effect_type s = EFFECT_ID_BREATHE" and "\<not> effect_step s < 30"
  shows "pwm_period (run_effect_work r s) = pwm_period s
       \<and> pwm_pulses (trace (run_effect_work r s)) =
           pwm_pulses (trace s) @ [pwm_pulse s (if on_off s then current_level s else 0)]"
  using assms
  by (simp add: run_effect_work_def effect_work_handler_def Let_def
        restore_previous_state_def light_set_brightness_simps pwm_pulses_append
        mod2_eq_if)

lemma run_okay_alternate_pulses:
  assumes "effect_work s = Some t" and "effect_type s = EFFECT_ID_OKAY" and "effect_step s < 4"
  shows "pwm_period (run_effect_work r s) = pwm_period s
       \<and> pwm_pulses (trace (run_effect_work r s)) =
           pwm_pulses (trace s) @ [pwm_pulse s (if even (effect_step s) then 255 else 0)]"
  using assms
  by (simp add: run_effect_work_def effect_work_handler_def Let_def
        restore_previous_state_def light_set_brightness_simps pwm_pulses_append
        mod2_eq_if)

lemma run_okay_restore_pulses:
  assumes "effect_work s = Some t" and "effect_type s = EFFECT_ID_OKAY" and "\<not> effect_step s < 4"
  shows "pwm_period (run_effect_work r s) = pwm_period s
       \<and> pwm_pulses (trace (run_effect_work r s)) =
           pwm_pulses (trace s) @ [pwm_pulse s (if on_off s then current_level s else 0)]"
  using assms
  by (simp add: run_effect_work_def effect_work_handler_def Let_def
        restore_previous_state_def light_set_brightness_simps pwm_pulses_append
        mod2_eq_if)

lemma run_channel_change_bright_pulses:
  assumes "effect_work s = Some t" and "effect_type s = EFFECT_ID_CHANNEL_CHANGE" and "effect_step s = 0"
  shows "pwm_period (run_effect_work r s) = pwm_period s
       \<and> pwm_pulses (trace (run_effect_work r s)) =
           pwm_pulses (trace s) @ [pwm_pulse s 255]"
  using assms
  by (simp add: run_effect_work_def effect_work_handler_def Let_def
        restore_previous_state_def light_set_brightness_simps pwm_pulses_append
        mod2_eq_if)

lemma run_channel_change_dim_pulses:
  assumes "effect_work s = Some t" and "effect_type s = EFFECT_ID_CHANNEL_CHANGE" and "effect_step s = 1"
  shows "pwm_period (run_effect_work r s) = pwm_period s
       \<and> pwm_pulses (trace (run_effect_work r s)) =
           pwm_pulses (trace s) @ [pwm_pulse s 25]"
  using assms
  by (simp add: run_effect_work_def effect_work_handler_def Let_def
        restore_previous_state_def light_set_brightness_simps pwm_pulses_append
        mod2_eq_if)

lemma run_channel_change_restore_pulses:
  assumes "effect_work s = Some t" and "effect_type s = EFFECT_ID_CHANNEL_CHANGE" and "effect_step s \<noteq> 0 \<and> effect_step s \<noteq> 1"
  shows "pwm_period (run_effect_work r s) = pwm_period s
       \<and> pwm_pulses (trace (run_effect_work r s)) =
           pwm_pulses (trace s) @ [pwm_pulse s (if on_off s then current_level s else 0)]"
  using assms
  by (simp add: run_effect_work_def effect_work_handler_def Let_def
        restore_previous_state_def light_set_brightness_simps pwm_pulses_append
        mod2_eq_if)

lemma run_other_restore_pulses:
  assumes "effect_work s = Some t" and "effect_type s = EFFECT_ID_OTHER b"
  shows "pwm_period (run_effect_work r s) = pwm_period s
       \<and> pwm_pulses (trace (run_effect_work r s)) =
           pwm_pulses (trace s) @ [pwm_pulse s (if on_off s then current_level s else 0)]"
  using assms
  by (simp add: run_effect_work_def effect_work_handler_def Let_def
        restore_previous_state_def light_set_brightness_simps pwm_pulses_append
        mod2_eq_if)

lemma start_identify_effect_pulses:
  "pwm_period (start_identify_effect r e s) = pwm_period s"
  "pwm_pulses (trace (start_identify_effect r e s)) =
     pwm_pulses (trace s) @
       (if e = EFFECT_ID_STOP \<or> e = EFFECT_ID_FINISH_EFFECT
        then [pwm_pulse s (if on_off s then current_level s else 0)] else [])"
  by (simp_all add: start_identify_effect_def Let_def restore_previous_state_def
        light_set_brightness_simps pwm_pulses_append)


text \<open>The alternating scripts (Breathe: 30 steps, Okay: 4 steps), whatever the PWM answers.\<close>

lemma alternate_run:
  assumes "effect_work s = Some t" and "effect_step s = 0"
    and "(effect_type s = EFFECT_ID_BREATHE \<and> n = 30) \<or> (effect_type s = EFFECT_ID_OKAY \<and> n = 4)"
    and "k \<le> n"
  shows "effect_type (effect_run pwm k s) = effect_type s
       \<and> effect_step (effect_run pwm k s) = of_nat k
       \<and> (\<exists>t'. effect_work (effect_run pwm k s) = Some t')
       \<and> on_off (effect_run pwm k s) = on_off s
       \<and> current_level (effect_run pwm k s) = current_level s
       \<and> pwm_period (effect_run pwm k s) = pwm_period s
       \<and> pwm_pulses (trace (effect_run pwm k s)) =
           pwm_pulses (trace s) @ map (\<lambda>i. pwm_pulse s (if even i then 255 else 0)) [0..<k]"
  using assms(4)
proof (induction k)
  case 0
  with assms(1,2) show ?case by simp
next
  case (Suc k)
  let ?s = "effect_run pwm k s"
  from Suc have ih: "effect_type ?s = effect_type s" "effect_step ?s = of_nat k"
      "on_off ?s = on_off s" "current_level ?s = current_level s"
      "pwm_period ?s = pwm_period s"
      "pwm_pulses (trace ?s) =
         pwm_pulses (trace s) @ map (\<lambda>i. pwm_pulse s (if even i then 255 else 0)) [0..<k]"
    and "\<exists>t'. effect_work ?s = Some t'"
    by simp_all
  then obtain t' where t': "effect_work ?s = Some t'" by blast
  have ev: "even (of_nat k :: u8) = even k"
    by simp
  from assms(3) show ?case
  proof
    assume a: "effect_type s = EFFECT_ID_BREATHE \<and> n = 30"
    with Suc.prems have "(of_nat k :: u8) < of_nat 30"
      by (intro u8_of_nat_less) simp_all
    then have lt: "effect_step ?s < 30" by (simp add: ih)
    from a ih have ty: "effect_type ?s = EFFECT_ID_BREATHE" by simp
    from run_breathe_alternate [OF t' ty lt, of "pwm k"]
      run_breathe_alternate_pulses [OF t' ty lt, of "pwm k"] a ih ev
    show ?thesis by simp
  next
    assume a: "effect_type s = EFFECT_ID_OKAY \<and> n = 4"
    with Suc.prems have "(of_nat k :: u8) < of_nat 4"
      by (intro u8_of_nat_less) simp_all
    then have lt: "effect_step ?s < 4" by (simp add: ih)
    from a ih have ty: "effect_type ?s = EFFECT_ID_OKAY" by simp
    from run_okay_alternate [OF t' ty lt, of "pwm k"]
      run_okay_alternate_pulses [OF t' ty lt, of "pwm k"] a ih ev
    show ?thesis by simp
  qed
qed

lemma alternate_run_brightness:
  assumes "effect_work s = Some t" and "effect_step s = 0"
    and "(effect_type s = EFFECT_ID_BREATHE \<and> n = 30) \<or> (effect_type s = EFFECT_ID_OKAY \<and> n = 4)"
    and "k < n"
  shows "current_brightness (effect_run pwm (Suc k) s) =
           (if pwm k = 0 then (if even k then 255 else 0)
            else current_brightness (effect_run pwm k s))"
proof -
  let ?s = "effect_run pwm k s"
  from assms(4) have "k \<le> n" by simp
  from alternate_run [OF assms(1-3) this, of pwm]
  obtain t' where st: "effect_type ?s = effect_type s" "effect_step ?s = of_nat k"
      "effect_work ?s = Some t'"
    by blast
  have ev: "even (of_nat k :: u8) = even k"
    by simp
  from assms(3) show ?thesis
  proof
    assume a: "effect_type s = EFFECT_ID_BREATHE \<and> n = 30"
    with assms(4) have "(of_nat k :: u8) < of_nat 30"
      by (intro u8_of_nat_less) simp_all
    then have lt: "effect_step ?s < 30" by (simp add: st)
    from a st have ty: "effect_type ?s = EFFECT_ID_BREATHE" by simp
    from run_breathe_alternate [OF st(3) ty lt, of "pwm k"] st ev
    show ?thesis by simp
  next
    assume a: "effect_type s = EFFECT_ID_OKAY \<and> n = 4"
    with assms(4) have "(of_nat k :: u8) < of_nat 4"
      by (intro u8_of_nat_less) simp_all
    then have lt: "effect_step ?s < 4" by (simp add: st)
    from a st have ty: "effect_type ?s = EFFECT_ID_OKAY" by simp
    from run_okay_alternate [OF st(3) ty lt, of "pwm k"] st ev
    show ?thesis by simp
  qed
qed

lemma alternate_script:
  assumes "(e = EFFECT_ID_BREATHE \<and> n = 30) \<or> (e = EFFECT_ID_OKAY \<and> n = 4)"
  defines "levels \<equiv> \<lambda>on lv k. if k < n then (if even k then 255 else 0)
                                else (if on then lv else (0 :: u8))"
  shows "effect_type (effect_run pwm (Suc n) (start_identify_effect r e s)) = EFFECT_ID_STOP"
    and "effect_work (effect_run pwm (Suc n) (start_identify_effect r e s)) = None"
    and "pwm_pulses (trace (effect_run pwm (Suc n) (start_identify_effect r e s))) =
           pwm_pulses (trace s) @
             map (\<lambda>k. pwm_pulse s (levels (on_off s) (current_level s) k)) [0..<Suc n]"
    and "\<And>k. k < Suc n \<Longrightarrow>
           current_brightness (effect_run pwm (Suc k) (start_identify_effect r e s)) =
             (if pwm k = 0 then levels (on_off s) (current_level s) k
              else current_brightness (effect_run pwm k (start_identify_effect r e s)))"
proof -
  let ?s0 = "start_identify_effect r e s"
  let ?sn = "effect_run pwm n ?s0"
  from assms(1) have w0: "effect_work ?s0 = Some (uptime s)" and st0: "effect_step ?s0 = 0"
    and ty0: "(effect_type ?s0 = EFFECT_ID_BREATHE \<and> n = 30)
              \<or> (effect_type ?s0 = EFFECT_ID_OKAY \<and> n = 4)"
    and p0: "pwm_period ?s0 = pwm_period s" "pwm_pulses (trace ?s0) = pwm_pulses (trace s)"
      "on_off ?s0 = on_off s" "current_level ?s0 = current_level s"
    by (auto simp add: start_identify_effect_fields start_identify_effect_pulses)
  from alternate_run [OF w0 st0 ty0 order_refl, of pwm] obtain t' where
    last: "effect_type ?sn = e" "effect_step ?sn = of_nat n" "effect_work ?sn = Some t'"
      "on_off ?sn = on_off s" "current_level ?sn = current_level s"
      "pwm_period ?sn = pwm_period s"
      "pwm_pulses (trace ?sn) =
         pwm_pulses (trace s) @ map (\<lambda>i. pwm_pulse s (if even i then 255 else 0)) [0..<n]"
    by (auto simp add: start_identify_effect_fields p0)
  have fin: "effect_type (run_effect_work (pwm n) ?sn) = EFFECT_ID_STOP
       \<and> effect_work (run_effect_work (pwm n) ?sn) = None
       \<and> current_brightness (run_effect_work (pwm n) ?sn) =
           (if pwm n = 0 then (if on_off s then current_level s else 0)
            else current_brightness ?sn)
       \<and> pwm_pulses (trace (run_effect_work (pwm n) ?sn)) =
           pwm_pulses (trace ?sn) @ [pwm_pulse s (if on_off s then current_level s else 0)]"
    using assms(1)
  proof
    assume a: "e = EFFECT_ID_BREATHE \<and> n = 30"
    with last have ty: "effect_type ?sn = EFFECT_ID_BREATHE"
      and ge: "\<not> effect_step ?sn < 30" by simp_all
    from run_breathe_restore [OF last(3) ty ge, of "pwm n"]
      run_breathe_restore_pulses [OF last(3) ty ge, of "pwm n"] last(4,5,6)
    show ?thesis by simp
  next
    assume a: "e = EFFECT_ID_OKAY \<and> n = 4"
    with last have ty: "effect_type ?sn = EFFECT_ID_OKAY"
      and ge: "\<not> effect_step ?sn < 4" by simp_all
    from run_okay_restore [OF last(3) ty ge, of "pwm n"]
      run_okay_restore_pulses [OF last(3) ty ge, of "pwm n"] last(4,5,6)
    show ?thesis by simp
  qed
  from fin show "effect_type (effect_run pwm (Suc n) ?s0) = EFFECT_ID_STOP"
    and "effect_work (effect_run pwm (Suc n) ?s0) = None"
    by simp_all
  have "map (\<lambda>i. pwm_pulse s (if even i then 255 else 0)) [0..<n] =
          map (\<lambda>k. pwm_pulse s (levels (on_off s) (current_level s) k)) [0..<n]"
    by (rule map_cong [OF refl]) (simp add: levels_def)
  with fin last(7)
  show "pwm_pulses (trace (effect_run pwm (Suc n) ?s0)) =
           pwm_pulses (trace s) @
             map (\<lambda>k. pwm_pulse s (levels (on_off s) (current_level s) k)) [0..<Suc n]"
    by (simp add: levels_def)
  show "current_brightness (effect_run pwm (Suc k) ?s0) =
             (if pwm k = 0 then levels (on_off s) (current_level s) k
              else current_brightness (effect_run pwm k ?s0))"
    if "k < Suc n" for k
  proof (cases "k < n")
    case True
    from alternate_run_brightness [OF w0 st0 ty0 True, of pwm] True show ?thesis
      by (simp add: levels_def)
  next
    case False
    with that have "k = n" by simp
    with fin show ?thesis by (simp add: levels_def)
  qed
qed


text \<open>The short scripts.\<close>

lemma blink_script:
  defines "levels \<equiv> \<lambda>on lv k. if k = (0 :: nat) then 255 else (if on then lv else (0 :: u8))"
  shows "effect_type (effect_run pwm 2 (start_identify_effect r EFFECT_ID_BLINK s)) = EFFECT_ID_STOP"
    and "effect_work (effect_run pwm 2 (start_identify_effect r EFFECT_ID_BLINK s)) = None"
    and "pwm_pulses (trace (effect_run pwm 2 (start_identify_effect r EFFECT_ID_BLINK s))) =
           pwm_pulses (trace s) @
             map (\<lambda>k. pwm_pulse s (levels (on_off s) (current_level s) k)) [0..<2]"
    and "\<And>k. k < 2 \<Longrightarrow>
           current_brightness (effect_run pwm (Suc k) (start_identify_effect r EFFECT_ID_BLINK s)) =
             (if pwm k = 0 then levels (on_off s) (current_level s) k
              else current_brightness
                     (effect_run pwm k (start_identify_effect r EFFECT_ID_BLINK s)))"
proof -
  let ?s0 = "start_identify_effect r EFFECT_ID_BLINK s"
  let ?s1 = "run_effect_work (pwm 0) ?s0"
  let ?s2 = "run_effect_work (pwm (Suc 0)) ?s1"
  have s0: "effect_work ?s0 = Some (uptime s)" "effect_type ?s0 = EFFECT_ID_BLINK"
      "effect_step ?s0 = 0" "on_off ?s0 = on_off s" "current_level ?s0 = current_level s"
      "pwm_period ?s0 = pwm_period s" "pwm_pulses (trace ?s0) = pwm_pulses (trace s)"
    by (simp_all add: start_identify_effect_fields start_identify_effect_pulses)
  from run_blink_on [OF s0(1,2,3), of "pwm 0"] run_blink_on_pulses [OF s0(1,2,3), of "pwm 0"]
  have s1: "effect_type ?s1 = EFFECT_ID_BLINK" "effect_step ?s1 \<noteq> 0"
      "effect_work ?s1 = Some (uptime s + 500)"
      "current_brightness ?s1 = (if pwm 0 = 0 then 255 else current_brightness ?s0)"
      "on_off ?s1 = on_off s" "current_level ?s1 = current_level s"
      "pwm_period ?s1 = pwm_period s"
      "pwm_pulses (trace ?s1) = pwm_pulses (trace s) @ [pwm_pulse s 255]"
    by (simp_all add: s0 start_identify_effect_fields)
  from run_blink_restore [OF s1(3,1,2), of "pwm (Suc 0)"]
    run_blink_restore_pulses [OF s1(3,1,2), of "pwm (Suc 0)"]
  have s2: "effect_type ?s2 = EFFECT_ID_STOP" "effect_work ?s2 = None"
      "current_brightness ?s2 =
         (if pwm (Suc 0) = 0 then (if on_off s then current_level s else 0)
          else current_brightness ?s1)"
      "pwm_pulses (trace ?s2) =
         pwm_pulses (trace s) @
           [pwm_pulse s 255, pwm_pulse s (if on_off s then current_level s else 0)]"
    by (simp_all add: s1)
  have two: "(2 :: nat) = Suc (Suc 0)" by simp
  have run1: "effect_run pwm (Suc 0) ?s0 = ?s1" and run2: "effect_run pwm 2 ?s0 = ?s2"
    unfolding two by simp_all
  show "effect_type (effect_run pwm 2 ?s0) = EFFECT_ID_STOP"
    and "effect_work (effect_run pwm 2 ?s0) = None"
    unfolding run2 by (simp_all add: s2)
  show "pwm_pulses (trace (effect_run pwm 2 ?s0)) =
           pwm_pulses (trace s) @
             map (\<lambda>k. pwm_pulse s (levels (on_off s) (current_level s) k)) [0..<2]"
    unfolding run2 s2 by (simp add: levels_def upt_rec)
  show "current_brightness (effect_run pwm (Suc k) ?s0) =
             (if pwm k = 0 then levels (on_off s) (current_level s) k
              else current_brightness (effect_run pwm k ?s0))"
    if "k < 2" for k
  proof -
    from that consider "k = 0" | "k = Suc 0" by arith
    then show ?thesis
    proof cases
      case 1
      then show ?thesis by (simp add: s1 levels_def)
    next
      case 2
      then have "effect_run pwm (Suc k) ?s0 = ?s2" and "effect_run pwm k ?s0 = ?s1"
        using run1 run2 by (simp_all add: two)
      with 2 show ?thesis by (simp add: s2 levels_def)
    qed
  qed
qed

lemma channel_change_script:
  defines "levels \<equiv> \<lambda>on lv k. if k = (0 :: nat) then 255 else if k = 1 then 25
                                else (if on then lv else (0 :: u8))"
  shows "effect_type (effect_run pwm 3 (start_identify_effect r EFFECT_ID_CHANNEL_CHANGE s)) =
           EFFECT_ID_STOP"
    and "effect_work (effect_run pwm 3 (start_identify_effect r EFFECT_ID_CHANNEL_CHANGE s)) = None"
    and "pwm_pulses (trace (effect_run pwm 3
                              (start_identify_effect r EFFECT_ID_CHANNEL_CHANGE s))) =
           pwm_pulses (trace s) @
             map (\<lambda>k. pwm_pulse s (levels (on_off s) (current_level s) k)) [0..<3]"
    and "\<And>k. k < 3 \<Longrightarrow>
           current_brightness
             (effect_run pwm (Suc k) (start_identify_effect r EFFECT_ID_CHANNEL_CHANGE s)) =
             (if pwm k = 0 then levels (on_off s) (current_level s) k
              else current_brightness
                     (effect_run pwm k (start_identify_effect r EFFECT_ID_CHANNEL_CHANGE s)))"
proof -
  let ?s0 = "start_identify_effect r EFFECT_ID_CHANNEL_CHANGE s"
  let ?s1 = "run_effect_work (pwm 0) ?s0"
  let ?s2 = "run_effect_work (pwm (Suc 0)) ?s1"
  let ?s3 = "run_effect_work (pwm (Suc (Suc 0))) ?s2"
  have s0: "effect_work ?s0 = Some (uptime s)" "effect_type ?s0 = EFFECT_ID_CHANNEL_CHANGE"
      "effect_step ?s0 = 0" "on_off ?s0 = on_off s" "current_level ?s0 = current_level s"
      "pwm_period ?s0 = pwm_period s" "pwm_pulses (trace ?s0) = pwm_pulses (trace s)"
    by (simp_all add: start_identify_effect_fields start_identify_effect_pulses)
  from run_channel_change_bright [OF s0(1,2,3), of "pwm 0"]
    run_channel_change_bright_pulses [OF s0(1,2,3), of "pwm 0"]
  have s1: "effect_type ?s1 = EFFECT_ID_CHANNEL_CHANGE" "effect_step ?s1 = 1"
      "effect_work ?s1 = Some (uptime s + 500)"
      "current_brightness ?s1 = (if pwm 0 = 0 then 255 else current_brightness ?s0)"
      "on_off ?s1 = on_off s" "current_level ?s1 = current_level s"
      "pwm_period ?s1 = pwm_period s"
      "pwm_pulses (trace ?s1) = pwm_pulses (trace s) @ [pwm_pulse s 255]"
    by (simp_all add: s0 start_identify_effect_fields)
  from run_channel_change_dim [OF s1(3,1,2), of "pwm (Suc 0)"]
    run_channel_change_dim_pulses [OF s1(3,1,2), of "pwm (Suc 0)"]
  have s2: "effect_type ?s2 = EFFECT_ID_CHANNEL_CHANGE"
      "effect_step ?s2 \<noteq> 0 \<and> effect_step ?s2 \<noteq> 1"
      "\<exists>t. effect_work ?s2 = Some t"
      "current_brightness ?s2 = (if pwm (Suc 0) = 0 then 25 else current_brightness ?s1)"
      "on_off ?s2 = on_off s" "current_level ?s2 = current_level s"
      "pwm_period ?s2 = pwm_period s"
      "pwm_pulses (trace ?s2) = pwm_pulses (trace s) @ [pwm_pulse s 255, pwm_pulse s 25]"
    by (simp_all add: s1)
  then obtain t where t: "effect_work ?s2 = Some t" by blast
  from run_channel_change_restore [OF t s2(1,2), of "pwm (Suc (Suc 0))"]
    run_channel_change_restore_pulses [OF t s2(1,2), of "pwm (Suc (Suc 0))"]
  have s3: "effect_type ?s3 = EFFECT_ID_STOP" "effect_work ?s3 = None"
      "current_brightness ?s3 =
         (if pwm (Suc (Suc 0)) = 0 then (if on_off s then current_level s else 0)
          else current_brightness ?s2)"
      "pwm_pulses (trace ?s3) =
         pwm_pulses (trace s) @
           [pwm_pulse s 255, pwm_pulse s 25,
            pwm_pulse s (if on_off s then current_level s else 0)]"
    by (simp_all add: s2)
  have two: "(2 :: nat) = Suc (Suc 0)" and three: "(3 :: nat) = Suc (Suc (Suc 0))"
    by simp_all
  have run1: "effect_run pwm (Suc 0) ?s0 = ?s1" and run2: "effect_run pwm 2 ?s0 = ?s2"
    and run3: "effect_run pwm 3 ?s0 = ?s3"
    unfolding two three by simp_all
  show "effect_type (effect_run pwm 3 ?s0) = EFFECT_ID_STOP"
    and "effect_work (effect_run pwm 3 ?s0) = None"
    unfolding run3 by (simp_all add: s3)
  show "pwm_pulses (trace (effect_run pwm 3 ?s0)) =
           pwm_pulses (trace s) @
             map (\<lambda>k. pwm_pulse s (levels (on_off s) (current_level s) k)) [0..<3]"
    unfolding run3 s3 by (simp add: levels_def upt_rec)
  show "current_brightness (effect_run pwm (Suc k) ?s0) =
             (if pwm k = 0 then levels (on_off s) (current_level s) k
              else current_brightness (effect_run pwm k ?s0))"
    if "k < 3" for k
  proof -
    from that consider "k = 0" | "k = Suc 0" | "k = Suc (Suc 0)" by arith
    then show ?thesis
    proof cases
      case 1
      then show ?thesis by (simp add: s1 levels_def)
    next
      case 2
      then have "effect_run pwm (Suc k) ?s0 = ?s2" and "effect_run pwm k ?s0 = ?s1"
        using run1 run2 by (simp_all add: two)
      with 2 show ?thesis by (simp add: s2 levels_def)
    next
      case 3
      then have "effect_run pwm (Suc k) ?s0 = ?s3" and "effect_run pwm k ?s0 = ?s2"
        using run2 run3 by (simp_all add: three)
      with 3 show ?thesis by (simp add: s3 levels_def)
    qed
  qed
qed

lemma other_script:
  shows "effect_type (effect_run pwm 1 (start_identify_effect r (EFFECT_ID_OTHER b) s)) =
           EFFECT_ID_STOP"
    and "effect_work (effect_run pwm 1 (start_identify_effect r (EFFECT_ID_OTHER b) s)) = None"
    and "pwm_pulses (trace (effect_run pwm 1 (start_identify_effect r (EFFECT_ID_OTHER b) s))) =
           pwm_pulses (trace s) @ [pwm_pulse s (if on_off s then current_level s else 0)]"
    and "current_brightness (effect_run pwm 1 (start_identify_effect r (EFFECT_ID_OTHER b) s)) =
           (if pwm 0 = 0 then (if on_off s then current_level s else 0)
            else current_brightness s)"
proof -
  let ?s0 = "start_identify_effect r (EFFECT_ID_OTHER b) s"
  have s0: "effect_work ?s0 = Some (uptime s)" "effect_type ?s0 = EFFECT_ID_OTHER b"
      "on_off ?s0 = on_off s" "current_level ?s0 = current_level s"
      "pwm_period ?s0 = pwm_period s" "pwm_pulses (trace ?s0) = pwm_pulses (trace s)"
      "current_brightness ?s0 = current_brightness s"
    by (simp_all add: start_identify_effect_fields start_identify_effect_pulses)
  have one: "(1 :: nat) = Suc 0" by simp
  from run_other_restore [OF s0(1,2), of "pwm 0"] run_other_restore_pulses [OF s0(1,2), of "pwm 0"]
  show "effect_type (effect_run pwm 1 ?s0) = EFFECT_ID_STOP"
    and "effect_work (effect_run pwm 1 ?s0) = None"
    and "pwm_pulses (trace (effect_run pwm 1 ?s0)) =
           pwm_pulses (trace s) @ [pwm_pulse s (if on_off s then current_level s else 0)]"
    and "current_brightness (effect_run pwm 1 ?s0) =
           (if pwm 0 = 0 then (if on_off s then current_level s else 0)
            else current_brightness s)"
    unfolding one by (simp_all add: s0)
qed


lemma run_effect_work_attrs:
  "on_off (run_effect_work r s) = on_off s"
  "current_level (run_effect_work r s) = current_level s"
  by (cases "effect_type s"; cases "effect_work s";
      simp add: run_effect_work_def effect_work_handler_def Let_def
        light_set_brightness_simps restore_previous_state_simps)+

text \<open>
  C7, as the code has it. Starting any identify effect cancels a scheduled effect step
  and resets the step counter to 0: whatever was scheduled before, Stop and
  FinishEffect leave no step scheduled and every other effect has its first step
  scheduled for now. Whatever the PWM driver answers to each write, every script runs
  to its end, hands the pulse widths of its levels to the PWM in order and leaves the
  machine idle: Blink writes 255 and then the steady brightness; Breathe writes 255
  and 0 in turn for 30 steps and then the steady brightness; Okay does so for 4
  steps; ChannelChange writes 255, then 25, then the steady brightness; an unknown
  effect, Stop and FinishEffect write the steady brightness at once. The steady
  brightness is the level attribute if the on/off attribute is set and 0 otherwise.
  Each step records its level as the current brightness when its PWM write succeeds
  and leaves the current brightness as it was when the write fails; so the last
  step leaves the steady brightness if its write succeeds.
\<close>

theorem identify_effect_scripts:
  "effect_step (start_identify_effect r e s) = 0
   \<and> effect_type (start_identify_effect r e s) = e
   \<and> effect_work (start_identify_effect r e s) =
       (if e = EFFECT_ID_STOP \<or> e = EFFECT_ID_FINISH_EFFECT then None else Some (uptime s))
   \<and> (let steady = (if on_off s then current_level s else 0);
            blink = start_identify_effect r EFFECT_ID_BLINK s;
            breathe = start_identify_effect r EFFECT_ID_BREATHE s;
            okay = start_identify_effect r EFFECT_ID_OKAY s;
            channel_change = start_identify_effect r EFFECT_ID_CHANNEL_CHANGE s;
            other = start_identify_effect r (EFFECT_ID_OTHER b) s;
            finish = start_identify_effect r EFFECT_ID_FINISH_EFFECT s;
            stop = start_identify_effect r EFFECT_ID_STOP s;
            blink_level = (\<lambda>k. if k = (0 :: nat) then 255 else steady);
            breathe_level = (\<lambda>k. if k < (30 :: nat) then (if even k then 255 else 0)
                                  else steady);
            okay_level = (\<lambda>k. if k < (4 :: nat) then (if even k then 255 else 0) else steady);
            channel_change_level = (\<lambda>k. if k = (0 :: nat) then 255 else if k = 1 then 25
                                         else steady)
        in effect_idle (effect_run pwm 2 blink)
           \<and> effect_type (effect_run pwm 2 blink) = EFFECT_ID_STOP
           \<and> pwm_pulses (trace (effect_run pwm 2 blink)) =
               pwm_pulses (trace s) @ map (\<lambda>k. pwm_pulse s (blink_level k)) [0..<2]
           \<and> (\<forall>k<2. current_brightness (effect_run pwm (Suc k) blink) =
                 (if pwm k = 0 then blink_level k
                  else current_brightness (effect_run pwm k blink)))
           \<and> effect_idle (effect_run pwm 31 breathe)
           \<and> effect_type (effect_run pwm 31 breathe) = EFFECT_ID_STOP
           \<and> pwm_pulses (trace (effect_run pwm 31 breathe)) =
               pwm_pulses (trace s) @ map (\<lambda>k. pwm_pulse s (breathe_level k)) [0..<31]
           \<and> (\<forall>k<31. current_brightness (effect_run pwm (Suc k) breathe) =
                 (if pwm k = 0 then breathe_level k
                  else current_brightness (effect_run pwm k breathe)))
           \<and> effect_idle (effect_run pwm 5 okay)
           \<and> effect_type (effect_run pwm 5 okay) = EFFECT_ID_STOP
           \<and> pwm_pulses (trace (effect_run pwm 5 okay)) =
               pwm_pulses (trace s) @ map (\<lambda>k. pwm_pulse s (okay_level k)) [0..<5]
           \<and> (\<forall>k<5. current_brightness (effect_run pwm (Suc k) okay) =
                 (if pwm k = 0 then okay_level k
                  else current_brightness (effect_run pwm k okay)))
           \<and> effect_idle (effect_run pwm 3 channel_change)
           \<and> effect_type (effect_run pwm 3 channel_change) = EFFECT_ID_STOP
           \<and> pwm_pulses (trace (effect_run pwm 3 channel_change)) =
               pwm_pulses (trace s) @ map (\<lambda>k. pwm_pulse s (channel_change_level k)) [0..<3]
           \<and> (\<forall>k<3. current_brightness (effect_run pwm (Suc k) channel_change) =
                 (if pwm k = 0 then channel_change_level k
                  else current_brightness (effect_run pwm k channel_change)))
           \<and> effect_idle (effect_run pwm 1 other)
           \<and> effect_type (effect_run pwm 1 other) = EFFECT_ID_STOP
           \<and> pwm_pulses (trace (effect_run pwm 1 other)) =
               pwm_pulses (trace s) @ [pwm_pulse s steady]
           \<and> current_brightness (effect_run pwm 1 other) =
               (if pwm 0 = 0 then steady else current_brightness s)
           \<and> effect_idle finish
           \<and> pwm_pulses (trace finish) = pwm_pulses (trace s) @ [pwm_pulse s steady]
           \<and> current_brightness finish = (if r = 0 then steady else current_brightness s)
           \<and> effect_idle stop
           \<and> pwm_pulses (trace stop) = pwm_pulses (trace s) @ [pwm_pulse s steady]
           \<and> current_brightness stop = (if r = 0 then steady else current_brightness s))"
proof -
  let ?steady = "if on_off s then current_level s else 0"
  note blink = blink_script [where pwm = pwm and r = r and s = s]
  note channel = channel_change_script [where pwm = pwm and r = r and s = s]
  note other = other_script [where pwm = pwm and r = r and b = b and s = s]
  have breathe:
    "effect_type (effect_run pwm 31 (start_identify_effect r EFFECT_ID_BREATHE s)) = EFFECT_ID_STOP"
    "effect_work (effect_run pwm 31 (start_identify_effect r EFFECT_ID_BREATHE s)) = None"
    "pwm_pulses (trace (effect_run pwm 31 (start_identify_effect r EFFECT_ID_BREATHE s))) =
       pwm_pulses (trace s) @
         map (\<lambda>k. pwm_pulse s (if k < 30 then (if even k then 255 else 0) else ?steady)) [0..<31]"
    "\<forall>k<31. current_brightness (effect_run pwm (Suc k) (start_identify_effect r EFFECT_ID_BREATHE s)) =
       (if pwm k = 0 then (if k < 30 then (if even k then 255 else 0) else ?steady)
        else current_brightness (effect_run pwm k (start_identify_effect r EFFECT_ID_BREATHE s)))"
    using alternate_script [where e = EFFECT_ID_BREATHE and n = 30 and pwm = pwm and r = r and s = s] by simp_all
  have okay:
    "effect_type (effect_run pwm 5 (start_identify_effect r EFFECT_ID_OKAY s)) = EFFECT_ID_STOP"
    "effect_work (effect_run pwm 5 (start_identify_effect r EFFECT_ID_OKAY s)) = None"
    "pwm_pulses (trace (effect_run pwm 5 (start_identify_effect r EFFECT_ID_OKAY s))) =
       pwm_pulses (trace s) @
         map (\<lambda>k. pwm_pulse s (if k < 4 then (if even k then 255 else 0) else ?steady)) [0..<5]"
    "\<forall>k<5. current_brightness (effect_run pwm (Suc k) (start_identify_effect r EFFECT_ID_OKAY s)) =
       (if pwm k = 0 then (if k < 4 then (if even k then 255 else 0) else ?steady)
        else current_brightness (effect_run pwm k (start_identify_effect r EFFECT_ID_OKAY s)))"
    using alternate_script [where e = EFFECT_ID_OKAY and n = 4 and pwm = pwm and r = r and s = s] by simp_all
  have b: "\<forall>k<2. current_brightness (effect_run pwm (Suc k) (start_identify_effect r EFFECT_ID_BLINK s)) =
       (if pwm k = 0 then (if k = 0 then 255 else ?steady)
        else current_brightness (effect_run pwm k (start_identify_effect r EFFECT_ID_BLINK s)))"
    using blink(4) by blast
  have c: "\<forall>k<3. current_brightness
             (effect_run pwm (Suc k) (start_identify_effect r EFFECT_ID_CHANNEL_CHANGE s)) =
       (if pwm k = 0 then (if k = 0 then 255 else if k = 1 then 25 else ?steady)
        else current_brightness
               (effect_run pwm k (start_identify_effect r EFFECT_ID_CHANNEL_CHANGE s)))"
    using channel(4) by blast
  show ?thesis
    unfolding Let_def effect_idle_def
    by (intro conjI b c breathe(3,4) okay(3,4) blink(3) channel(3) other(3,4))
       (simp_all add: start_identify_effect_fields start_identify_effect_pulses
          breathe(1,2) okay(1,2) blink(1,2) channel(1,2) other(1,2) [simplified])
qed

text \<open>
  C7 as stated fails: the light is off, Blink writes 255, and the PWM refuses the
  write of the restore step. The script is complete and the machine idle, but the
  brightness is still the 255 of the effect, not the 0 of the attributes.
\<close>

theorem blink_restore_write_fails:
  "(let s' = effect_run (\<lambda>k. if k = 1 then - 5 else 0) 2
               (start_identify_effect 0 EFFECT_ID_BLINK example_state)
    in effect_idle s' \<and> \<not> on_off s' \<and> current_level s' = 255
       \<and> current_brightness s' = 255)"
proof -
  let ?pwm = "\<lambda>k :: nat. if k = 1 then - 5 else (0 :: int)"
  let ?s0 = "start_identify_effect 0 EFFECT_ID_BLINK example_state"
  have two: "(2 :: nat) = Suc (Suc 0)" by simp
  have attrs: "on_off (effect_run ?pwm 2 ?s0) = on_off example_state"
      "current_level (effect_run ?pwm 2 ?s0) = current_level example_state"
    unfolding two by (simp_all add: run_effect_work_attrs start_identify_effect_fields)
  have "current_brightness (effect_run ?pwm (Suc 0) ?s0) = 255"
    using blink_script(4) [where k = 0 and pwm = ?pwm and r = 0 and s = example_state] by simp
  moreover have "current_brightness (effect_run ?pwm (Suc (Suc 0)) ?s0) =
      current_brightness (effect_run ?pwm (Suc 0) ?s0)"
    using blink_script(4) [where k = "Suc 0" and pwm = ?pwm and r = 0 and s = example_state] by simp
  ultimately have "current_brightness (effect_run ?pwm 2 ?s0) = 255"
    unfolding two by simp
  with attrs blink_script(1,2) [where pwm = ?pwm and r = 0 and s = example_state] show ?thesis
    unfolding Let_def effect_idle_def by (simp add: example_state_def)
qed

theorem identify_effect_scripts_witness:
  "effect_idle (effect_run (\<lambda>k. 0) 2 (start_identify_effect 0 EFFECT_ID_BLINK example_state))
   \<and> current_brightness
        (effect_run (\<lambda>k. 0) 2 (start_identify_effect 0 EFFECT_ID_BLINK example_state)) = 0
   \<and> current_brightness
        (effect_run (\<lambda>k. 0) 1 (start_identify_effect 0 EFFECT_ID_BLINK example_state)) = 255"
proof -
  note w = identify_effect_scripts [where r = 0 and e = EFFECT_ID_BLINK and s = example_state
      and pwm = "\<lambda>k. 0", unfolded Let_def]
  from w have idle: "effect_idle (effect_run (\<lambda>k. 0) 2
                       (start_identify_effect 0 EFFECT_ID_BLINK example_state))"
    by blast
  from w have steps: "\<forall>k<2. current_brightness (effect_run (\<lambda>k. 0) (Suc k)
                          (start_identify_effect 0 EFFECT_ID_BLINK example_state)) =
       (if (0 :: int) = 0
        then (if k = 0 then 255
              else if on_off example_state then current_level example_state else 0)
        else current_brightness (effect_run (\<lambda>k. 0) k
               (start_identify_effect 0 EFFECT_ID_BLINK example_state)))"
    by blast
  have two: "(2 :: nat) = Suc (Suc 0)" and one: "(1 :: nat) = Suc 0" by simp_all
  from steps [rule_format, of 0] steps [rule_format, of "Suc 0"] idle show ?thesis
    unfolding two one by (simp add: example_state_def)
qed

subsection \<open>Fade ticks\<close>

lemma run_transition_work_fields:
  assumes "transition_work s = Some t"
  shows "transition_elapsed (run_transition_work r s) = transition_elapsed s + 20"
    and "transition_start (run_transition_work r s) = transition_start s"
    and "transition_target (run_transition_work r s) = transition_target s"
    and "transition_duration (run_transition_work r s) = transition_duration s"
    and "uptime (run_transition_work r s) = max (uptime s) t"
    and "transition_work (run_transition_work r s) =
           (if transition_duration s \<le> transition_elapsed s + 20 then None
            else Some (max (uptime s) t + 20))"
    and "current_brightness (run_transition_work r s) =
           (if r \<noteq> 0 then current_brightness s
            else if transition_duration s \<le> transition_elapsed s + 20 then transition_target s
            else word_of_int (uint (transition_start s) +
                   ((uint (transition_target s) - uint (transition_start s)) *
                      uint (transition_elapsed s + 20)) sdiv uint (transition_duration s)))"
    and "on_off (run_transition_work r s) = on_off s"
    and "current_level (run_transition_work r s) = current_level s"
    and "effect_type (run_transition_work r s) = effect_type s"
    and "effect_step (run_transition_work r s) = effect_step s"
    and "effect_work (run_transition_work r s) = effect_work s"
  using assms
  by (simp_all add: run_transition_work_def transition_work_handler_def Let_def
        light_set_brightness_simps k_work_schedule_def TRANSITION_STEP_MS_def)

lemma run_effect_work_frame:
  "transition_elapsed (run_effect_work r s) = transition_elapsed s"
  "transition_start (run_effect_work r s) = transition_start s"
  "transition_target (run_effect_work r s) = transition_target s"
  "transition_duration (run_effect_work r s) = transition_duration s"
  "transition_work (run_effect_work r s) = transition_work s"
  by (cases "effect_type s"; cases "effect_work s";
      simp add: run_effect_work_def effect_work_handler_def Let_def
        light_set_brightness_simps restore_previous_state_simps)+

lemma transition_ticks_running:
  assumes "transition_work s = Some t"
    and "\<And>j. 1 \<le> j \<Longrightarrow> j \<le> k \<Longrightarrow>
           transition_elapsed s + of_nat (20 * j) < transition_duration s"
  shows "transition_elapsed (transition_ticks k s) = transition_elapsed s + of_nat (20 * k)
       \<and> transition_start (transition_ticks k s) = transition_start s
       \<and> transition_target (transition_ticks k s) = transition_target s
       \<and> transition_duration (transition_ticks k s) = transition_duration s
       \<and> transition_work (transition_ticks k s) =
           Some (if k = 0 then t else max (uptime s) t + 20 * int k)
       \<and> uptime (transition_ticks k s) =
           (if k = 0 then uptime s else max (uptime s) t + 20 * (int k - 1))
       \<and> on_off (transition_ticks k s) = on_off s
       \<and> current_level (transition_ticks k s) = current_level s
       \<and> effect_type (transition_ticks k s) = effect_type s
       \<and> effect_step (transition_ticks k s) = effect_step s
       \<and> effect_work (transition_ticks k s) = effect_work s
       \<and> (0 < k \<longrightarrow> current_brightness (transition_ticks k s) =
             word_of_int (uint (transition_start s) +
               ((uint (transition_target s) - uint (transition_start s)) *
                  uint (transition_elapsed s + of_nat (20 * k))) sdiv uint (transition_duration s)))"
  using assms(2)
proof (induction k)
  case 0
  with assms(1) show ?case by simp
next
  case (Suc k)
  let ?s = "transition_ticks k s"
  have ih: "transition_elapsed ?s = transition_elapsed s + of_nat (20 * k)"
      "transition_start ?s = transition_start s"
      "transition_target ?s = transition_target s"
      "transition_duration ?s = transition_duration s"
      "transition_work ?s = Some (if k = 0 then t else max (uptime s) t + 20 * int k)"
      "uptime ?s = (if k = 0 then uptime s else max (uptime s) t + 20 * (int k - 1))"
      "on_off ?s = on_off s" "current_level ?s = current_level s"
      "effect_type ?s = effect_type s" "effect_step ?s = effect_step s"
      "effect_work ?s = effect_work s"
    using Suc.IH Suc.prems by simp_all
  have el: "transition_elapsed ?s + 20 = transition_elapsed s + of_nat (20 * Suc k)"
    by (simp add: ih)
  have "transition_elapsed s + of_nat (20 * Suc k) < transition_duration s"
    using Suc.prems [of "Suc k"] by simp
  then have "transition_elapsed ?s + 20 < transition_duration ?s"
    by (simp only: el ih(4))
  then have run: "\<not> transition_duration ?s \<le> transition_elapsed ?s + 20"
    by (simp only: not_le)
  show ?case
    using run_transition_work_fields [OF ih(5), of 0] run
    unfolding el
    by (simp add: ih)
qed


lemma run_effect_work_uptime:
  "uptime (run_effect_work r s) =
     (case effect_work s of None \<Rightarrow> uptime s | Some t \<Rightarrow> max (uptime s) t)"
  by (cases "effect_type s"; cases "effect_work s";
      simp add: run_effect_work_def effect_work_handler_def Let_def
        light_set_brightness_simps restore_previous_state_simps)

lemma u16_of_nat_less:
  assumes "n < m" and "m < 65536"
  shows "(of_nat n :: u16) < of_nat m"
  using assms by (simp add: word_less_nat_alt unat_of_nat)

subsection \<open>Identify effects and fades\<close>

lemma run_transition_work_ignores_effect:
  "current_brightness (run_transition_work r (s\<lparr>effect_type := e, effect_step := k, effect_work := w\<rparr>))
     = current_brightness (run_transition_work r s)"
  by (simp add: run_transition_work_def transition_work_handler_def Let_def
        light_set_brightness_simps split: option.split)

text \<open>
  C3, as the code has it. \<^verbatim>\<open>start_identify_effect\<close> cancels the effect's work item
  only: the fade's work item and its start, target, elapsed time and duration are
  what they were, and the brightness a fade tick writes does not depend on the
  effect's state. So a fade in progress goes on writing brightness while the effect
  is active. The restore step of Blink itself, run in any state with the PWM write
  succeeding, sets the brightness to the level attribute if the on/off attribute is
  set and to 0 otherwise, and leaves the effect machine idle.
\<close>

theorem identify_does_not_stop_fade:
  "transition_work (start_identify_effect r e s) = transition_work s
   \<and> transition_start (start_identify_effect r e s) = transition_start s
   \<and> transition_target (start_identify_effect r e s) = transition_target s
   \<and> transition_elapsed (start_identify_effect r e s) = transition_elapsed s
   \<and> transition_duration (start_identify_effect r e s) = transition_duration s
   \<and> current_brightness (run_transition_work r
         (s\<lparr>effect_type := e, effect_step := k, effect_work := w\<rparr>))
       = current_brightness (run_transition_work r s)
   \<and> (effect_type s = EFFECT_ID_BLINK \<and> effect_step s \<noteq> 0 \<and> effect_work s \<noteq> None \<longrightarrow>
        current_brightness (run_effect_work 0 s) = (if on_off s then current_level s else 0)
        \<and> effect_idle (run_effect_work 0 s))"
proof -
  have "current_brightness (run_effect_work 0 s) = (if on_off s then current_level s else 0)
        \<and> effect_idle (run_effect_work 0 s)"
    if "effect_type s = EFFECT_ID_BLINK" and "effect_step s \<noteq> 0" and "effect_work s = Some t" for t
    using run_blink_restore [OF that(3,1,2), of 0] by (simp add: effect_idle_def)
  then show ?thesis
    by (auto simp add: start_identify_effect_fields run_transition_work_ignores_effect)
qed

theorem identify_does_not_stop_fade_witness:
  "current_brightness (run_effect_work 0
       (example_state\<lparr>effect_step := 1, effect_work := Some 500,
                       current_brightness := 77\<rparr>)) = 0
   \<and> effect_idle (run_effect_work 0
       (example_state\<lparr>effect_step := 1, effect_work := Some 500,
                       current_brightness := 77\<rparr>))"
  using identify_does_not_stop_fade
    [where s = "example_state\<lparr>effect_step := 1, effect_work := Some 500,
                               current_brightness := 77\<rparr>"]
  by (simp add: example_state_def)

text \<open>
  C3 as stated fails. A toggle starts a one second fade from 0 to 255; after its first
  tick a Blink is started. The effect's first step writes 255 at uptime 0 and is
  active until its restore step at 500 ms; the fade's tick at 20 ms overwrites the
  brightness with 10 meanwhile. The restore step at 500 ms writes the steady
  brightness 255; the fade's tick at 520 ms replaces it with 137, a value the fade
  passes through.
\<close>

theorem fade_writes_during_blink:
  "(let s1 = light_toggle 0 example_state;
        s2 = transition_ticks 1 s1;
        s3 = start_identify_effect 0 EFFECT_ID_BLINK s2;
        s4 = effect_steps 1 s3;
        s5 = transition_ticks 1 s4;
        s6 = transition_ticks 24 s5;
        s7 = effect_steps 1 s6;
        s8 = transition_ticks 1 s7
    in effect_type s4 = EFFECT_ID_BLINK \<and> effect_work s4 = Some 500 \<and> uptime s4 = 0
       \<and> current_brightness s4 = 255
       \<and> effect_type s5 = EFFECT_ID_BLINK \<and> effect_work s5 = Some 500 \<and> uptime s5 = 20
       \<and> current_brightness s5 = 10
       \<and> uptime s7 = 500 \<and> effect_idle s7 \<and> on_off s7 \<and> current_level s7 = 255
       \<and> current_brightness s7 = 255
       \<and> uptime s8 = 520 \<and> current_brightness s8 = 137)"
proof -
  define s1 where "s1 = light_toggle 0 example_state"
  define s2 where "s2 = transition_ticks 1 s1"
  define s3 where "s3 = start_identify_effect 0 EFFECT_ID_BLINK s2"
  define s4 where "s4 = effect_steps 1 s3"
  define s5 where "s5 = transition_ticks 1 s4"
  define s6 where "s6 = transition_ticks 24 s5"
  define s7 where "s7 = effect_steps 1 s6"
  define s8 where "s8 = transition_ticks 1 s7"
  have one: "(1 :: nat) = Suc 0" by simp
  have s1: "transition_work s1 = Some 0" "transition_start s1 = 0" "transition_target s1 = 255"
      "transition_elapsed s1 = 0" "transition_duration s1 = 1000" "uptime s1 = 0"
      "on_off s1" "current_level s1 = 255"
    unfolding s1_def
    by (simp_all add: light_toggle_def Let_def light_fade_to_simps save_light_state_def
          example_state_def)
  have s2: "transition_work s2 = Some 20" "transition_start s2 = 0" "transition_target s2 = 255"
      "transition_elapsed s2 = 20" "transition_duration s2 = 1000" "uptime s2 = 0"
      "on_off s2" "current_level s2 = 255"
    unfolding s2_def one using run_transition_work_fields [OF s1(1), of 0]
    by (simp_all add: s1)
  have s3: "transition_work s3 = Some 20" "transition_start s3 = 0" "transition_target s3 = 255"
      "transition_elapsed s3 = 20" "transition_duration s3 = 1000" "uptime s3 = 0"
      "on_off s3" "current_level s3 = 255"
      "effect_work s3 = Some 0" "effect_type s3 = EFFECT_ID_BLINK" "effect_step s3 = 0"
    unfolding s3_def by (simp_all add: start_identify_effect_fields s2)
  have s4: "transition_work s4 = Some 20" "transition_start s4 = 0" "transition_target s4 = 255"
      "transition_elapsed s4 = 20" "transition_duration s4 = 1000" "uptime s4 = 0"
      "on_off s4" "current_level s4 = 255"
      "effect_work s4 = Some 500" "effect_type s4 = EFFECT_ID_BLINK" "effect_step s4 = 1"
      "current_brightness s4 = 255"
    unfolding s4_def one using run_blink_on [OF s3(9,10,11), of 0]
    by (simp_all add: run_effect_work_frame run_effect_work_uptime s3)
  have s5: "transition_work s5 = Some 40" "transition_start s5 = 0" "transition_target s5 = 255"
      "transition_elapsed s5 = 40" "transition_duration s5 = 1000" "uptime s5 = 20"
      "on_off s5" "current_level s5 = 255"
      "effect_work s5 = Some 500" "effect_type s5 = EFFECT_ID_BLINK" "effect_step s5 = 1"
      "current_brightness s5 = 10"
    unfolding s5_def one using run_transition_work_fields [OF s4(1), of 0]
    by (simp_all add: s4 signed_divide_int_def)
  have "transition_elapsed s5 + of_nat (20 * j) < transition_duration s5"
    if "1 \<le> j" and "j \<le> 24" for j
  proof -
    have "(of_nat (40 + 20 * j) :: u16) < of_nat 1000"
      using that by (intro u16_of_nat_less) simp_all
    then show ?thesis by (simp add: s5)
  qed
  from transition_ticks_running [OF s5(1) this, of 24]
  have s6: "transition_work s6 = Some 520" "transition_start s6 = 0" "transition_target s6 = 255"
      "transition_elapsed s6 = 520" "transition_duration s6 = 1000" "uptime s6 = 500"
      "on_off s6" "current_level s6 = 255"
      "effect_work s6 = Some 500" "effect_type s6 = EFFECT_ID_BLINK" "effect_step s6 = 1"
    unfolding s6_def by (simp_all add: s5)
  have s7: "transition_work s7 = Some 520" "transition_start s7 = 0" "transition_target s7 = 255"
      "transition_elapsed s7 = 520" "transition_duration s7 = 1000" "uptime s7 = 500"
      "on_off s7" "current_level s7 = 255"
      "effect_work s7 = None" "effect_type s7 = EFFECT_ID_STOP"
      "current_brightness s7 = 255"
    unfolding s7_def one using run_blink_restore [OF s6(9,10), of 0]
    by (simp_all add: run_effect_work_frame run_effect_work_uptime s6)
  have s8: "uptime s8 = 520" "current_brightness s8 = 137"
    unfolding s8_def one using run_transition_work_fields [OF s7(1), of 0]
    by (simp_all add: s7 signed_divide_int_def)
  have "effect_type s4 = EFFECT_ID_BLINK \<and> effect_work s4 = Some 500 \<and> uptime s4 = 0
       \<and> current_brightness s4 = 255
       \<and> effect_type s5 = EFFECT_ID_BLINK \<and> effect_work s5 = Some 500 \<and> uptime s5 = 20
       \<and> current_brightness s5 = 10
       \<and> uptime s7 = 500 \<and> effect_idle s7 \<and> on_off s7 \<and> current_level s7 = 255
       \<and> current_brightness s7 = 255
       \<and> uptime s8 = 520 \<and> current_brightness s8 = 137"
    by (simp add: s4 s5 s7 s8 effect_idle_def)
  then show ?thesis
    unfolding s1_def s2_def s3_def s4_def s5_def s6_def s7_def s8_def Let_def .
qed

subsection \<open>The button\<close>














subsection \<open>Fades from start to target\<close>

lemma sdiv_nonneg_bounds:
  assumes "0 \<le> (k :: int)" and "0 < D" and "k \<le> m * D"
  shows "0 \<le> k sdiv D \<and> k sdiv D \<le> m"
proof -
  have eq: "k sdiv D = k div D"
    using assms(1,2) by (rule sdiv_nonneg)
  have "k div D \<le> (m * D) div D"
    using assms(3,2) by (rule zdiv_mono1)
  with assms(1,2) show ?thesis
    by (simp add: eq pos_imp_zdiv_nonneg_iff)
qed

lemma sdiv_nonpos_bounds:
  assumes "(k :: int) \<le> 0" and "0 < D" and "- k \<le> m * D"
  shows "- m \<le> k sdiv D \<and> k sdiv D \<le> 0"
proof (cases "k = 0")
  case True
  with assms show ?thesis
    by (simp add: zero_le_mult_iff)
next
  case False
  with assms(1,2) have eq: "k sdiv D = - ((- k) div D)"
    by (simp add: signed_divide_int_def sgn_if)
  have "(- k) div D \<le> (m * D) div D"
    using assms(3,2) by (rule zdiv_mono1)
  moreover have "0 \<le> (- k) div D"
    using assms(1,2) by (simp add: pos_imp_zdiv_nonneg_iff)
  ultimately show ?thesis
    using assms(2) by (simp add: eq)
qed

text \<open>The interpolated value never leaves the interval between start and target.\<close>

lemma interpolation_between:
  assumes "0 \<le> e" and "e < D"
  shows "min A B \<le> A + ((B - A) * e) sdiv D \<and> A + ((B - A) * e) sdiv D \<le> max A (B :: int)"
proof (cases "A \<le> B")
  case True
  have "(B - A) * e \<le> (B - A) * D"
    using True assms by (simp add: mult_left_mono)
  moreover have "0 \<le> (B - A) * e"
    using True assms by simp
  ultimately have "0 \<le> ((B - A) * e) sdiv D \<and> ((B - A) * e) sdiv D \<le> B - A"
    using assms by (intro sdiv_nonneg_bounds) simp_all
  with True show ?thesis by simp
next
  case False
  have "(A - B) * e \<le> (A - B) * D"
    using False assms by (simp add: mult_left_mono)
  then have "- ((B - A) * e) \<le> (A - B) * D"
    by (simp add: algebra_simps)
  moreover have "(B - A) * e \<le> 0"
    using False assms by (simp add: mult_le_0_iff)
  ultimately have "- (A - B) \<le> ((B - A) * e) sdiv D \<and> ((B - A) * e) sdiv D \<le> 0"
    using assms by (intro sdiv_nonpos_bounds) simp_all
  with False show ?thesis by simp
qed

lemma u8_interpolation:
  fixes a b :: u8 and e d :: u16
  assumes "e < d"
  defines "v \<equiv> uint a + ((uint b - uint a) * uint e) sdiv uint d"
  shows "uint (word_of_int v :: u8) = v"
    and "min (uint a) (uint b) \<le> v" and "v \<le> max (uint a) (uint b)"
proof -
  have "0 \<le> uint e" and "uint e < uint d"
    using assms(1) by (simp_all add: word_less_def)
  from interpolation_between [OF this, of "uint a" "uint b"]
  show b: "min (uint a) (uint b) \<le> v" and c: "v \<le> max (uint a) (uint b)"
    by (simp_all add: v_def)
  have lo: "0 \<le> min (uint a) (uint b)"
    by simp
  have "uint a < 2 ^ LENGTH(8)" and "uint b < 2 ^ LENGTH(8)"
    by (rule uint_lt2p)+
  then have hi: "max (uint a) (uint b) < 2 ^ 8"
    by (simp only: len8 max_def split: if_splits) presburger
  from lo b have "0 \<le> v"
    by (rule order_trans)
  moreover from c hi have "v < 2 ^ 8"
    by (rule le_less_trans)
  ultimately show "uint (word_of_int v :: u8) = v"
    by (simp only: uint_word_of_int_eq take_bit_int_eq_self len8)
qed


lemma u16_unat_of_nat:
  assumes "m < 65536"
  shows "unat (of_nat m :: u16) = m"
  using assms by (simp add: unat_of_nat)

lemma light_fade_to_scheduled:
  assumes "duration_ms \<noteq> 0" and "current_brightness s \<noteq> target"
  shows "transition_work (light_fade_to r target duration_ms s) = Some (uptime s)"
    and "transition_start (light_fade_to r target duration_ms s) = current_brightness s"
    and "transition_target (light_fade_to r target duration_ms s) = target"
    and "transition_elapsed (light_fade_to r target duration_ms s) = 0"
    and "transition_duration (light_fade_to r target duration_ms s) = duration_ms"
    and "current_brightness (light_fade_to r target duration_ms s) = current_brightness s"
  using assms by (simp_all add: light_fade_to_simps)

text \<open>
  A fade of at most 65520 ms: the elapsed time never wraps. Tick \<open>k\<close> sets the elapsed
  time to \<open>20 k\<close>; every tick before tick \<open>n = \<lceil>duration / 20\<rceil>\<close> writes the interpolated
  brightness, which lies between start and target, and schedules the next tick; tick
  \<open>n\<close> writes the target and schedules nothing.
\<close>

lemma fade_reaches_target:
  fixes r :: int
  assumes "duration_ms \<noteq> 0" and "current_brightness s \<noteq> target"
    and "duration_ms \<le> 65520"
  defines "s0 \<equiv> light_fade_to r target duration_ms s"
    and "n \<equiv> (unat duration_ms + 19) div 20"
  shows "\<And>k. k < n \<Longrightarrow>
           transition_elapsed (transition_ticks k s0) = of_nat (20 * k)
           \<and> unat (transition_elapsed (transition_ticks k s0)) = 20 * k
           \<and> transition_elapsed (transition_ticks k s0) < duration_ms
           \<and> transition_work (transition_ticks k s0) \<noteq> None"
    and "\<And>k. 0 < k \<Longrightarrow> k < n \<Longrightarrow>
           uint (current_brightness (transition_ticks k s0)) =
             uint (current_brightness s) +
               ((uint target - uint (current_brightness s)) * (20 * int k)) sdiv uint duration_ms
           \<and> min (uint (current_brightness s)) (uint target)
               \<le> uint (current_brightness (transition_ticks k s0))
           \<and> uint (current_brightness (transition_ticks k s0))
               \<le> max (uint (current_brightness s)) (uint target)"
    and "unat (transition_elapsed (transition_ticks n s0)) = 20 * n"
    and "duration_ms \<le> transition_elapsed (transition_ticks n s0)"
    and "current_brightness (transition_ticks n s0) = target"
    and "transition_work (transition_ticks n s0) = None"
proof -
  have d: "unat duration_ms \<le> 65520" "0 < unat duration_ms"
    using assms(1,3) by (simp_all add: word_le_nat_alt unat_gt_0)
  have s0: "transition_work s0 = Some (uptime s)" "transition_start s0 = current_brightness s"
      "transition_target s0 = target" "transition_elapsed s0 = 0"
      "transition_duration s0 = duration_ms"
    unfolding s0_def using light_fade_to_scheduled [OF assms(1,2), of r] by simp_all
  have small: "20 * k < unat duration_ms" if "k < n" for k
    using that unfolding n_def by arith
  have val: "unat (of_nat (20 * k) :: u16) = 20 * k" if "20 * k < 65536" for k
    using that by (rule u16_unat_of_nat)
  have below: "(of_nat (20 * k) :: u16) < duration_ms" if "k < n" for k
  proof -
    from small [OF that] d have "20 * k < 65536" by simp
    from val [OF this] small [OF that] show ?thesis
      by (simp only: word_less_nat_alt)
  qed
  have run: "transition_elapsed s0 + of_nat (20 * j) < transition_duration s0"
    if "j \<le> k" and "k < n" for j k
    using below [of j] that by (simp add: s0)
  show running: "transition_elapsed (transition_ticks k s0) = of_nat (20 * k)
           \<and> unat (transition_elapsed (transition_ticks k s0)) = 20 * k
           \<and> transition_elapsed (transition_ticks k s0) < duration_ms
           \<and> transition_work (transition_ticks k s0) \<noteq> None"
    if "k < n" for k
  proof -
    from transition_ticks_running [OF s0(1), of k] run [OF _ that]
    have "transition_elapsed (transition_ticks k s0) = of_nat (20 * k)"
        "transition_work (transition_ticks k s0) \<noteq> None"
      by (simp_all add: s0)
    moreover from small [OF that] d have "20 * k < 65536" by simp
    ultimately show ?thesis
      using below [OF that] val by simp
  qed
  show "uint (current_brightness (transition_ticks k s0)) =
             uint (current_brightness s) +
               ((uint target - uint (current_brightness s)) * (20 * int k)) sdiv uint duration_ms
           \<and> min (uint (current_brightness s)) (uint target)
               \<le> uint (current_brightness (transition_ticks k s0))
           \<and> uint (current_brightness (transition_ticks k s0))
               \<le> max (uint (current_brightness s)) (uint target)"
    if "0 < k" and "k < n" for k
  proof -
    from transition_ticks_running [OF s0(1), of k] run [OF _ that(2)] that(1)
    have cb: "current_brightness (transition_ticks k s0) =
        word_of_int (uint (current_brightness s) +
          ((uint target - uint (current_brightness s)) * uint (of_nat (20 * k) :: u16))
             sdiv uint duration_ms)"
      by (simp add: s0)
    from small [OF that(2)] d have "20 * k < 65536" by simp
    from val [OF this] have e: "uint (of_nat (20 * k) :: u16) = 20 * int k"
      by (simp only: uint_nat)
    from u8_interpolation [OF below [OF that(2)], of "current_brightness s" target]
    show ?thesis
      unfolding cb e by simp
  qed
  have n: "0 < n" "20 * n < 65536" "unat duration_ms \<le> 20 * n"
    using d unfolding n_def by arith+
  then obtain m where m: "n = Suc m" "m < n"
    by (cases n) simp_all
  from transition_ticks_running [OF s0(1), of m] run [OF _ m(2)]
  obtain t where prev: "transition_work (transition_ticks m s0) = Some t"
      "transition_elapsed (transition_ticks m s0) = of_nat (20 * m)"
      "transition_duration (transition_ticks m s0) = duration_ms"
      "transition_target (transition_ticks m s0) = target"
    by (simp add: s0)
  have el: "transition_elapsed (transition_ticks m s0) + 20 = of_nat (20 * n)"
    by (simp add: prev m(1))
  have reached: "duration_ms \<le> of_nat (20 * n)"
    using val [OF n(2)] n(3) by (simp only: word_le_nat_alt)
  from run_transition_work_fields [OF prev(1), of 0]
  have last: "transition_elapsed (transition_ticks n s0) = of_nat (20 * n)"
      "current_brightness (transition_ticks n s0) = target"
      "transition_work (transition_ticks n s0) = None"
    unfolding el prev(3,4) m(1) using reached unfolding m(1) by simp_all
  from last(1) val [OF n(2)] show "unat (transition_elapsed (transition_ticks n s0)) = 20 * n"
    by simp
  from last(1) reached show "duration_ms \<le> transition_elapsed (transition_ticks n s0)"
    by simp
  from last show "current_brightness (transition_ticks n s0) = target"
    and "transition_work (transition_ticks n s0) = None"
    by simp_all
qed

lemma u16_mult20_below_max:
  "(of_nat (20 * j) :: u16) < 65535"
proof -
  have "4 dvd 20 * j" by simp
  then have dv: "4 dvd (20 * j) mod 65536"
    by (rule dvd_mod) simp
  have "(20 * j) mod 65536 < 65536" by simp
  moreover have "(20 * j) mod 65536 \<noteq> 65535"
    using dv by (metis dvd_def mult_2 numeral_Bit0 even_mult_iff even_numeral odd_numeral)
  ultimately have "(20 * j) mod 65536 < 65535" by simp
  then have "unat (of_nat (20 * j) :: u16) < unat (65535 :: u16)"
    by (simp only: unat_of_nat) simp
  then show ?thesis
    by (simp only: word_less_nat_alt)
qed

text \<open>
  A fade of 65535 ms never completes: the elapsed time is a multiple of 4 below
  \<open>2^16\<close> after every tick, so it never reaches the duration.
\<close>

lemma fade_of_65535_ms_never_completes:
  "transition_work (transition_ticks k (light_fade_to 0 255 65535 example_state)) \<noteq> None
   \<and> transition_elapsed (transition_ticks k (light_fade_to 0 255 65535 example_state)) =
       of_nat (20 * k)"
proof -
  let ?s0 = "light_fade_to 0 255 65535 example_state"
  have s0: "transition_work ?s0 = Some 0" "transition_elapsed ?s0 = 0"
      "transition_duration ?s0 = 65535"
    by (simp_all add: light_fade_to_simps example_state_def)
  have "transition_elapsed ?s0 + of_nat (20 * j) < transition_duration ?s0" for j
    using u16_mult20_below_max [of j] by (simp only: s0 add_0_left)
  from transition_ticks_running [OF s0(1) this, of k] show ?thesis
    by (simp add: s0)
qed

lemma u16_mult20_wrap:
  assumes "1 \<le> j" and "j \<le> 3277"
  shows "(of_nat (20 * j) :: u16) < 65532"
proof (cases "j \<le> 3276")
  case True
  then have "(of_nat (20 * j) :: u16) < of_nat 65532"
    by (intro u16_of_nat_less) simp_all
  then show ?thesis by simp
next
  case False
  with assms have "j = 3277" by simp
  then show ?thesis by simp
qed

text \<open>
  C1 at a fade of 65532 ms, which \<^verbatim>\<open>light_toggle\<close> requests when the transition time
  attribute is 9175 (917500 modulo \<open>2^16\<close>). After tick 3276 the elapsed time is
  65520 ms. Tick 3277 does not advance it to 65540, at or past the duration: the
  16 bit counter wraps to 4, the tick writes the interpolated brightness 0 instead of
  the target 255 and schedules a further tick.
\<close>

theorem fade_elapsed_wraps:
  "(let s0 = light_toggle 0 (example_state\<lparr>on_off_transition_time := 9175\<rparr>)
    in transition_work s0 = Some 0 \<and> transition_duration s0 = 65532
       \<and> transition_start s0 = 0 \<and> transition_target s0 = 255
       \<and> transition_elapsed s0 = 0
       \<and> transition_elapsed (transition_ticks 3276 s0) = 65520
       \<and> transition_elapsed (transition_ticks 3277 s0) = 4
       \<and> current_brightness (transition_ticks 3277 s0) = 0
       \<and> transition_work (transition_ticks 3277 s0) = Some 65540)"
proof -
  define s0 where "s0 = light_toggle 0 (example_state\<lparr>on_off_transition_time := 9175\<rparr>)"
  have s0: "transition_work s0 = Some 0" "transition_duration s0 = 65532"
      "transition_start s0 = 0" "transition_target s0 = 255" "transition_elapsed s0 = 0"
      "uptime s0 = 0"
    unfolding s0_def
    by (simp_all add: light_toggle_def Let_def light_fade_to_simps save_light_state_def
          example_state_def)
  have run: "transition_elapsed s0 + of_nat (20 * j) < transition_duration s0"
    if "1 \<le> j" and "j \<le> 3277" for j
    using u16_mult20_wrap [OF that] by (simp add: s0)
  have run': "transition_elapsed s0 + of_nat (20 * j) < transition_duration s0"
    if "1 \<le> j" and "j \<le> 3276" for j
    using that by (intro run) simp_all
  from transition_ticks_running [OF s0(1) run', of 3276]
  have a: "transition_elapsed (transition_ticks 3276 s0) = 65520"
    by (simp add: s0)
  from transition_ticks_running [OF s0(1) run, of 3277]
  have b: "transition_elapsed (transition_ticks 3277 s0) = 4"
      "current_brightness (transition_ticks 3277 s0) = 0"
      "transition_work (transition_ticks 3277 s0) = Some 65540"
    by (simp_all add: s0 signed_divide_int_def)
  show ?thesis
    unfolding s0_def [symmetric] Let_def by (simp add: s0 a b)
qed

end
